theory Spec2Isabelle
  imports Main "HOL-Library.Sublist" "HOL-Library.Char_ord" "HOL-Library.List_Lexorder"
    "HOL-Library.Multiset"
begin

section \<open>Strings as the application handles them\<close>

text \<open>
  A Python string is a list of Unicode code points. A character of a HOL string stands
  for the code point of its code, so the model holds the strings whose code points are
  below 256; whitespace and case are Python's on that range.
\<close>

definition is_space :: "char \<Rightarrow> bool" where
  \<comment> \<open>\<open>str.isspace\<close>, which \<open>str.strip()\<close> and the class \<open>\s\<close> of \<open>re\<close> follow: tab, LF, VT,
      FF, CR, FS, GS, RS, US, the space, NEL and the no-break space\<close>
  "is_space c = (c \<in> set [CHR 0x09, CHR 0x0A, CHR 0x0B, CHR 0x0C, CHR 0x0D,
                            CHR 0x1C, CHR 0x1D, CHR 0x1E, CHR 0x1F, CHR 0x20,
                            CHR 0x85, CHR 0xA0])"



definition lower_char :: "char \<Rightarrow> char" where
  \<comment> \<open>\<open>str.lower()\<close> on one character: \<open>A\<close> to \<open>Z\<close>, and the capital letters from
      \<open>U+00C0\<close> to \<open>U+00DE\<close> (the sign \<open>U+00D7\<close> is not one)\<close>
  "lower_char c =
     (case map_of (zip
        (''ABCDEFGHIJKLMNOPQRSTUVWXYZ'' @
         [CHR 0xC0, CHR 0xC1, CHR 0xC2, CHR 0xC3, CHR 0xC4, CHR 0xC5, CHR 0xC6,
          CHR 0xC7, CHR 0xC8, CHR 0xC9, CHR 0xCA, CHR 0xCB, CHR 0xCC, CHR 0xCD,
          CHR 0xCE, CHR 0xCF, CHR 0xD0, CHR 0xD1, CHR 0xD2, CHR 0xD3, CHR 0xD4,
          CHR 0xD5, CHR 0xD6, CHR 0xD8, CHR 0xD9, CHR 0xDA, CHR 0xDB, CHR 0xDC,
          CHR 0xDD, CHR 0xDE])
        (''abcdefghijklmnopqrstuvwxyz'' @
         [CHR 0xE0, CHR 0xE1, CHR 0xE2, CHR 0xE3, CHR 0xE4, CHR 0xE5, CHR 0xE6,
          CHR 0xE7, CHR 0xE8, CHR 0xE9, CHR 0xEA, CHR 0xEB, CHR 0xEC, CHR 0xED,
          CHR 0xEE, CHR 0xEF, CHR 0xF0, CHR 0xF1, CHR 0xF2, CHR 0xF3, CHR 0xF4,
          CHR 0xF5, CHR 0xF6, CHR 0xF8, CHR 0xF9, CHR 0xFA, CHR 0xFB, CHR 0xFC,
          CHR 0xFD, CHR 0xFE]))
        c of
        None \<Rightarrow> c
      | Some l \<Rightarrow> l)"

definition lower :: "string \<Rightarrow> string" where
  \<comment> \<open>\<open>str.lower()\<close>\<close>
  "lower s = map lower_char s"

definition strip :: "string \<Rightarrow> string" where
  \<comment> \<open>\<open>str.strip()\<close>: whitespace removed at both ends\<close>
  "strip s = rev (dropWhile is_space (rev (dropWhile is_space s)))"

definition strip_chars :: "char \<Rightarrow> string \<Rightarrow> string" where
  \<comment> \<open>\<open>str.strip(c)\<close> for a single character \<open>c\<close>\<close>
  "strip_chars x s = rev (dropWhile (\<lambda>c. c = x) (rev (dropWhile (\<lambda>c. c = x) s)))"

definition lstrip_chars :: "char \<Rightarrow> string \<Rightarrow> string" where
  \<comment> \<open>\<open>str.lstrip(c)\<close> for a single character \<open>c\<close>\<close>
  "lstrip_chars x s = dropWhile (\<lambda>c. c = x) s"

function sub_ws :: "string \<Rightarrow> string" where
  \<comment> \<open>\<open>re.sub(r"\s+", "_", name)\<close>: every maximal run of whitespace becomes one underscore\<close>
  "sub_ws [] = []"
| "sub_ws (c # cs) =
     (if is_space c then CHR ''_'' # sub_ws (dropWhile is_space cs) else c # sub_ws cs)"
  by pat_completeness auto
termination
  by (relation "measure length") (auto simp: length_dropWhile_le less_Suc_eq_le)

definition slug_char :: "char \<Rightarrow> bool" where
  \<comment> \<open>the class \<open>[a-z0-9_\-]\<close>\<close>
  "slug_char c = (c \<in> set ''abcdefghijklmnopqrstuvwxyz0123456789_-'')"

definition slugify :: "string \<Rightarrow> string" where
  "slugify name0 =
     (let name1 = lower (strip name0);
          name2 = sub_ws name1;
          name3 = filter slug_char name2
      in if name3 \<noteq> [] then take 60 name3 else ''proyecto'')"

subsection \<open>Decimal text of integers\<close>

definition digit_char :: "nat \<Rightarrow> char" where
  "digit_char d = ''0123456789'' ! d"

fun str_nat :: "nat \<Rightarrow> string" where
  "str_nat n = (if n < 10 then [digit_char n] else str_nat (n div 10) @ [digit_char (n mod 10)])"

declare str_nat.simps [simp del]

definition str_int :: "int \<Rightarrow> string" where
  \<comment> \<open>\<open>str(i)\<close>, also what an f-string writes for an integer\<close>
  "str_int i = (if i < 0 then CHR ''-'' # str_nat (nat (- i)) else str_nat (nat i))"

lemma digit_char_inj: "a < 10 \<Longrightarrow> b < 10 \<Longrightarrow> digit_char a = digit_char b \<Longrightarrow> a = b"
proof -
  assume a: "a < 10" and b: "b < 10" and e: "digit_char a = digit_char b"
  have d: "distinct ''0123456789''" by simp
  have "length ''0123456789'' = 10" by simp
  with a b d e show "a = b"
    unfolding digit_char_def by (metis nth_eq_iff_index_eq)
qed

lemma str_nat_nonempty: "str_nat n \<noteq> []"
  by (subst str_nat.simps) simp

lemma str_nat_inj: "str_nat a = str_nat b \<Longrightarrow> a = b"
proof (induction a arbitrary: b rule: str_nat.induct)
  case (1 n)
  show ?case
  proof (cases "n < 10")
    case small: True
    show ?thesis
    proof (cases "b < 10")
      case True
      with small "1.prems" show ?thesis
        by (simp add: str_nat.simps [of n] str_nat.simps [of b] digit_char_inj)
    next
      case False
      with small "1.prems" str_nat_nonempty [of "b div 10"] show ?thesis
        by (simp add: str_nat.simps [of n] str_nat.simps [of b])
    qed
  next
    case big: False
    show ?thesis
    proof (cases "b < 10")
      case True
      with big "1.prems" str_nat_nonempty [of "n div 10"] show ?thesis
        by (simp add: str_nat.simps [of n] str_nat.simps [of b])
    next
      case False
      with big "1.prems" have e: "str_nat (n div 10) = str_nat (b div 10)"
        and d: "digit_char (n mod 10) = digit_char (b mod 10)"
        by (simp_all add: str_nat.simps [of n] str_nat.simps [of b])
      from "1.IH" [OF big e] have q: "n div 10 = b div 10" .
      from d have r: "n mod 10 = b mod 10"
        by (intro digit_char_inj) simp_all
      from q r show ?thesis
        by (metis div_mult_mod_eq)
    qed
  qed
qed

section \<open>The relational data\<close>

text \<open>
  The three tables of \<open>instance/app.db\<close>. A table is the list of its rows, a nullable
  column an \<open>option\<close>. \<open>AUTOINCREMENT\<close> keeps the largest row id ever given in
  \<open>sqlite_sequence\<close>; the \<open>seq_\<close> fields hold it.
\<close>

record user_row =
  user_id :: int
  username :: string
  password_hash :: string
  is_admin :: int

record project_row =
  proj_id :: int
  proj_name :: string
  slug :: string
  created_at :: string
  proj_description :: "string option"
  status :: string

record photo_row =
  photo_id :: int
  filepath :: "string option"
  filename :: "string option"
  display_name :: string
  description :: "string option"
  uploaded_at :: string
  uploaded_by :: "int option"
  project_id :: "int option"

record database =
  users :: "user_row list"
  projects :: "project_row list"
  photos :: "photo_row list"
  seq_users :: int
  seq_projects :: int
  seq_photos :: int

datatype sql_error = IntegrityError

definition next_rowid :: "int \<Rightarrow> int list \<Rightarrow> int" where
  \<comment> \<open>the row id an \<open>AUTOINCREMENT\<close> column gives: one more than the largest ever used\<close>
  "next_rowid seq ids = fold max ids seq + 1"

definition project_by_id :: "database \<Rightarrow> int \<Rightarrow> project_row option" where
  \<comment> \<open>\<open>SELECT ... FROM projects WHERE id = ?\<close>, \<open>fetchone()\<close>\<close>
  "project_by_id db pid = find (\<lambda>p. proj_id p = pid) (projects db)"

definition project_by_slug :: "database \<Rightarrow> string \<Rightarrow> project_row option" where
  \<comment> \<open>\<open>SELECT ... FROM projects WHERE slug = ?\<close>, \<open>fetchone()\<close>\<close>
  "project_by_slug db s = find (\<lambda>p. slug p = s) (projects db)"

definition insert_project ::
  "database \<Rightarrow> string \<Rightarrow> string \<Rightarrow> string \<Rightarrow> string \<Rightarrow> string \<Rightarrow> sql_error + database" where
  \<comment> \<open>\<open>INSERT INTO projects (name, slug, description, status)\<close>; \<open>name\<close> and \<open>slug\<close> are
      \<open>UNIQUE\<close>, \<open>created_at\<close> defaults to the local time \<open>now\<close>\<close>
  "insert_project db name s descr st now =
     (if name \<in> set (map proj_name (projects db)) \<or> s \<in> set (map slug (projects db))
      then Inl IntegrityError
      else let new_id = next_rowid (seq_projects db) (map proj_id (projects db)) in
        Inr (db\<lparr>projects := projects db @
               [\<lparr>proj_id = new_id, proj_name = name, slug = s, created_at = now,
                 proj_description = Some descr, status = st\<rparr>],
             seq_projects := new_id\<rparr>))"

section \<open>The uploads tree\<close>

text \<open>
  The tree under \<open>UPLOADS_ROOT\<close>: the regular files, keyed by their path relative to the
  root as the application writes it, with their content, and the directories that
  \<open>mkdir(parents=True, exist_ok=True)\<close> has made. A photo's path names a regular file;
  \<open>Path.exists\<close> is asked of such paths only.
\<close>

record filesystem =
  files :: "string \<rightharpoonup> string"
  dirs :: "string set"

definition path_exists :: "filesystem \<Rightarrow> string \<Rightarrow> bool" where
  "path_exists fs p = (files fs p \<noteq> None)"

definition mkdir :: "filesystem \<Rightarrow> string \<Rightarrow> filesystem" where
  "mkdir fs d = fs\<lparr>dirs := insert d (dirs fs)\<rparr>"

definition write_file :: "filesystem \<Rightarrow> string \<Rightarrow> string \<Rightarrow> filesystem" where
  \<comment> \<open>\<open>file.save(path)\<close>\<close>
  "write_file fs p content = fs\<lparr>files := (files fs)(p \<mapsto> content)\<rparr>"

definition unlink :: "filesystem \<Rightarrow> string \<Rightarrow> filesystem" where
  "unlink fs p = fs\<lparr>files := (files fs)(p := None)\<rparr>"

definition replace_file :: "filesystem \<Rightarrow> string \<Rightarrow> string \<Rightarrow> filesystem" where
  \<comment> \<open>\<open>old_path.replace(new_path)\<close> when it succeeds: the source takes the place of
      whatever the destination held\<close>
  "replace_file fs src dst = fs\<lparr>files := ((files fs)(src := None))(dst := files fs src)\<rparr>"

type_synonym world = "database \<times> filesystem"

text \<open>
  What a request finds outside the database and the uploads tree: the readings of
  \<open>int(time.time())\<close> (the \<open>k\<close>-th call of a request reads \<open>clock k\<close>), the text of
  \<open>datetime('now','localtime')\<close>, the error, if any, that the operating system raises on
  a \<open>replace\<close> or an \<open>unlink\<close>, the two library functions \<open>werkzeug.utils.secure_filename\<close>
  and \<open>generate_password_hash\<close>, and three readings of texts:
  \<^item> \<open>sql_date\<close> is SQLite's \<open>date(...)\<close>: the day \<open>YYYY-MM-DD\<close> of a time text, \<open>None\<close>
    for \<open>NULL\<close>;
  \<^item> \<open>sql_numeric\<close> is the integer, if any, that SQLite reads from a text that is not a
    signed run of decimal digits when it compares the text with an \<open>INTEGER\<close> column
    (\<open>2.0\<close> and \<open>2e0\<close> read as 2);
  \<^item> \<open>py_int\<close> is Python's \<open>int(text)\<close>, \<open>None\<close> when it raises \<open>ValueError\<close>.
\<close>

record env =
  clock :: "nat \<Rightarrow> int"
  now_text :: string
  replace_error :: "string \<Rightarrow> string \<Rightarrow> string option"
  unlink_error :: "string \<Rightarrow> string option"
  secure_filename :: "string \<Rightarrow> string"
  generate_password_hash :: "string \<Rightarrow> string"
  sql_date :: "string \<Rightarrow> string option"
  sql_numeric :: "string \<Rightarrow> int option"
  py_int :: "string \<Rightarrow> int option"

section \<open>Responses\<close>

datatype endpoint =
  Ep_login | Ep_dashboard | Ep_admin_panel | Ep_upload | Ep_edit_photo int | Ep_edit_project int

datatype category = Error | Success | Message

text \<open>The flashed messages, named by what they say.\<close>

datatype message =
    Msg_admin_only                \<comment> \<open>Acceso solo para administradores.\<close>
  | Msg_no_upload_permission      \<comment> \<open>No tienes permisos para subir imagenes.\<close>
  | Msg_cannot_delete_self        \<comment> \<open>No puedes eliminar tu propio usuario.\<close>
  | Msg_user_not_found            \<comment> \<open>Usuario no encontrado.\<close>
  | Msg_last_admin                \<comment> \<open>No puedes eliminar el ultimo administrador.\<close>
  | Msg_user_deleted string       \<comment> \<open>Usuario '...' eliminado.\<close>
  | Msg_project_name_required     \<comment> \<open>El nombre del proyecto es obligatorio.\<close>
  | Msg_project_created           \<comment> \<open>Proyecto creado.\<close>
  | Msg_project_exists            \<comment> \<open>Ese proyecto ya existe.\<close>
  | Msg_project_not_found         \<comment> \<open>Proyecto no encontrado.\<close>
  | Msg_cannot_delete_general     \<comment> \<open>No se puede eliminar el proyecto General.\<close>
  | Msg_no_general                \<comment> \<open>No existe el proyecto General.\<close>
  | Msg_project_deleted           \<comment> \<open>Proyecto eliminado. Las fotos se movieron a General.\<close>
  | Msg_select_project            \<comment> \<open>Selecciona un proyecto.\<close>
  | Msg_invalid_project           \<comment> \<open>Proyecto invalido.\<close>
  | Msg_select_image              \<comment> \<open>Selecciona una imagen.\<close>
  | Msg_name_required             \<comment> \<open>El nombre/codigo es obligatorio.\<close>
  | Msg_format_not_allowed        \<comment> \<open>Formato no permitido. Usa JPG/PNG/WEBP.\<close>
  | Msg_uploaded                  \<comment> \<open>Imagen subida correctamente.\<close>
  | Msg_photo_not_found           \<comment> \<open>Foto no encontrada.\<close>
  | Msg_file_missing              \<comment> \<open>Aviso: no se encontro el archivo fisico para mover/renombrar.\<close>
  | Msg_move_failed string        \<comment> \<open>No se pudo mover/renombrar el archivo: ...\<close>
  | Msg_photo_updated             \<comment> \<open>Foto actualizada.\<close>
  | Msg_photo_deleted             \<comment> \<open>Foto eliminada.\<close>
  | Msg_please_log_in             \<comment> \<open>Please log in to access this page.\<close>

type_synonym flash = "message \<times> category"

datatype response =
    Redirect "flash list" endpoint   \<comment> \<open>the messages flashed, then \<open>redirect(url_for(...))\<close>\<close>
  | Render "flash list" string       \<comment> \<open>\<open>render_template\<close>\<close>
  | Server_error "flash list"        \<comment> \<open>an exception that no handler catches: the server's
                                         error page, after the messages flashed so far\<close>

type_synonym form = "string \<rightharpoonup> string"

definition form_get :: "form \<Rightarrow> string \<Rightarrow> string \<Rightarrow> string" where
  \<comment> \<open>\<open>request.form.get(key, default)\<close>\<close>
  "form_get f k d = (case f k of None \<Rightarrow> d | Some v \<Rightarrow> v)"

section \<open>Project registry\<close>

subsection \<open>Creating a project\<close>

definition slug_candidate :: "string \<Rightarrow> nat \<Rightarrow> string" where
  \<comment> \<open>\<open>f"{base}_{i}"\<close>\<close>
  "slug_candidate base i = base @ ''_'' @ str_nat i"

lemma slug_candidate_inj: "slug_candidate base i = slug_candidate base j \<Longrightarrow> i = j"
  by (simp add: slug_candidate_def str_nat_inj)

lemma finite_candidates: "finite {j. slug_candidate base j \<in> set taken}"
proof -
  have "inj (slug_candidate base)"
    by (rule injI) (rule slug_candidate_inj)
  then have "finite (slug_candidate base -` set taken)"
    by (intro finite_vimageI) simp_all
  then show ?thesis
    by (simp add: vimage_def)
qed

function slug_loop :: "string list \<Rightarrow> string \<Rightarrow> string \<Rightarrow> nat \<Rightarrow> string" where
  \<comment> \<open>the \<open>while\<close> of \<open>admin_create_project\<close>; \<open>taken\<close> are the slugs in the table\<close>
  "slug_loop taken base s i =
     (if s \<in> set taken then slug_loop taken base (slug_candidate base i) (Suc i) else s)"
  by pat_completeness auto
termination
proof (relation "measure (\<lambda>(taken, base, s, i).
    card {j. i \<le> j \<and> slug_candidate base j \<in> set taken} + (if s \<in> set taken then 1 else 0))")
  show "wf (measure (\<lambda>(taken, base, s, i).
    card {j. i \<le> j \<and> slug_candidate base j \<in> set taken} + (if s \<in> set taken then 1 else 0)))"
    by simp
next
  fix taken :: "string list" and base s :: string and i :: nat
  assume "s \<in> set taken"
  let ?A = "{j. i \<le> j \<and> slug_candidate base j \<in> set taken}"
  let ?B = "{j. Suc i \<le> j \<and> slug_candidate base j \<in> set taken}"
  have fin: "finite ?A"
    by (rule finite_subset [OF _ finite_candidates [of base taken]]) auto
  have "card ?B + (if slug_candidate base i \<in> set taken then 1 else 0) \<le> card ?A"
  proof (cases "slug_candidate base i \<in> set taken")
    case True
    then have "?A = insert i ?B" by (auto simp: Suc_le_eq le_less)
    moreover have "i \<notin> ?B" by simp
    moreover have "finite ?B" by (rule finite_subset [OF _ fin]) auto
    ultimately show ?thesis by simp
  next
    case False
    have "?B \<subseteq> ?A" by auto
    with fin False show ?thesis by (simp add: card_mono)
  qed
  with \<open>s \<in> set taken\<close>
  show "((taken, base, slug_candidate base i, Suc i), (taken, base, s, i))
      \<in> measure (\<lambda>(taken, base, s, i).
    card {j. i \<le> j \<and> slug_candidate base j \<in> set taken} + (if s \<in> set taken then 1 else 0))"
    by simp
qed

declare slug_loop.simps [simp del]

definition admin_create_project :: "env \<Rightarrow> form \<Rightarrow> world \<Rightarrow> response \<times> world" where
  "admin_create_project e f w =
     (let (db, fs) = w;
          name = strip (form_get f ''project_name'' '''');
          descr = strip (form_get f ''project_description'' '''');
          st = strip (form_get f ''project_status'' ''pendiente'')
      in if name = [] then (Redirect [(Msg_project_name_required, Error)] Ep_admin_panel, w)
         else
           let s = slug_loop (map slug (projects db)) (slugify name) (slugify name) 2 in
           case insert_project db name s descr st (now_text e) of
             Inl IntegrityError \<Rightarrow> (Redirect [(Msg_project_exists, Error)] Ep_admin_panel, w)
           | Inr db' \<Rightarrow> (Redirect [(Msg_project_created, Success)] Ep_admin_panel, (db', mkdir fs s)))"

subsection \<open>Paths and identifiers in text\<close>

definition basename :: "string \<Rightarrow> string" where
  \<comment> \<open>\<open>os.path.basename\<close>: what follows the last slash\<close>
  "basename p = rev (takeWhile (\<lambda>c. c \<noteq> CHR ''/'') (rev p))"

fun split_slash :: "string \<Rightarrow> string list" where
  \<comment> \<open>\<open>s.split("/")\<close>\<close>
  "split_slash [] = [[]]"
| "split_slash (c # cs) =
     (if c = CHR ''/'' then [] # split_slash cs
      else (case split_slash cs of [] \<Rightarrow> [[c]] | x # xs \<Rightarrow> (c # x) # xs))"

definition path_name :: "string \<Rightarrow> string" where
  \<comment> \<open>\<open>PurePosixPath(s).name\<close>: the last component, empty and \<open>.\<close> components dropped\<close>
  "path_name s =
     (case filter (\<lambda>c. c \<noteq> [] \<and> c \<noteq> ''.'') (split_slash s) of
        [] \<Rightarrow> []
      | x # xs \<Rightarrow> last (x # xs))"

definition rfind :: "char \<Rightarrow> string \<Rightarrow> nat option" where
  \<comment> \<open>\<open>s.rfind(c)\<close>, \<open>None\<close> for \<open>-1\<close>\<close>
  "rfind c s =
     (if c \<in> set s then Some (length s - 1 - length (takeWhile (\<lambda>x. x \<noteq> c) (rev s))) else None)"

definition path_suffix :: "string \<Rightarrow> string" where
  \<comment> \<open>\<open>Path(s).suffix\<close>: from the last dot of the name, unless that dot is the first or
      the last character of the name\<close>
  "path_suffix s =
     (let name = path_name s in
      case rfind CHR ''.'' name of
        None \<Rightarrow> []
      | Some i \<Rightarrow> if 0 < i \<and> i + 1 < length name then drop i name else [])"

definition ALLOWED_EXTENSIONS :: "string set" where
  "ALLOWED_EXTENSIONS = {''png'', ''jpg'', ''jpeg'', ''webp''}"

definition is_digit :: "char \<Rightarrow> bool" where
  "is_digit c = (c \<in> set ''0123456789'')"

definition digit_val :: "char \<Rightarrow> nat" where
  "digit_val c = (case map_of (zip ''0123456789'' [0, 1, 2, 3, 4, 5, 6, 7, 8, 9]) c of
                    None \<Rightarrow> 0 | Some d \<Rightarrow> d)"

definition nat_of_digits :: "string \<Rightarrow> nat" where
  "nat_of_digits s = foldl (\<lambda>a c. 10 * a + digit_val c) 0 s"

definition all_digits :: "string \<Rightarrow> bool" where
  "all_digits s = (s \<noteq> [] \<and> list_all is_digit s)"

definition int_of_text :: "string \<Rightarrow> int option" where
  \<comment> \<open>the integer that a text of an optional sign and decimal digits denotes; \<open>None\<close> for
      a text of another form\<close>
  "int_of_text s =
     (case s of
        [] \<Rightarrow> None
      | c # cs \<Rightarrow>
          if c = CHR ''-'' \<and> all_digits cs then Some (- int (nat_of_digits cs))
          else if c = CHR ''+'' \<and> all_digits cs then Some (int (nat_of_digits cs))
          else if all_digits (c # cs) then Some (int (nat_of_digits (c # cs)))
          else None)"

definition sql_int_of_text :: "env \<Rightarrow> string \<Rightarrow> int option" where
  \<comment> \<open>the integer that SQLite compares with an \<open>INTEGER\<close> column when the other operand
      is a text (numeric affinity): the number a signed run of decimal digits denotes
      (which is the row id it equals, if any), none for the empty text, and \<open>sql_numeric\<close>
      for every other text\<close>
  "sql_int_of_text e txt =
     (case int_of_text txt of
        Some n \<Rightarrow> Some n
      | None \<Rightarrow> if txt = [] then None else sql_numeric e txt)"

definition project_by_id_text :: "env \<Rightarrow> database \<Rightarrow> string \<Rightarrow> project_row option" where
  \<comment> \<open>\<open>SELECT id, slug FROM projects WHERE id = ?\<close> with the form's text as parameter\<close>
  "project_by_id_text e db txt =
     (case sql_int_of_text e txt of None \<Rightarrow> None | Some n \<Rightarrow> project_by_id db n)"

section \<open>Identity and permissions\<close>

record principal =
  pr_id :: int
  pr_username :: string
  pr_password_hash :: string
  pr_is_admin :: bool

definition User :: "user_row \<Rightarrow> principal" where
  \<comment> \<open>\<open>class User\<close>: \<open>is_admin = bool(row["is_admin"])\<close>\<close>
  "User row = \<lparr>pr_id = user_id row, pr_username = username row,
               pr_password_hash = password_hash row, pr_is_admin = (is_admin row \<noteq> 0)\<rparr>"

definition load_user :: "database \<Rightarrow> int \<Rightarrow> principal option" where
  "load_user db uid = map_option User (find (\<lambda>u. user_id u = uid) (users db))"

definition current_user :: "database \<Rightarrow> int option \<Rightarrow> principal option" where
  \<comment> \<open>the principal of a request: the session's user id, if any, looked up by \<open>load_user\<close>\<close>
  "current_user db sess = (case sess of None \<Rightarrow> None | Some uid \<Rightarrow> load_user db uid)"

type_synonym view = "principal \<Rightarrow> world \<Rightarrow> response \<times> world"

definition login_required :: "view \<Rightarrow> principal option \<Rightarrow> world \<Rightarrow> response \<times> world" where
  \<comment> \<open>\<open>flask_login.login_required\<close>: an anonymous request is told to log in and goes to
      the login view\<close>
  "login_required view_func cur w =
     (case cur of
        None \<Rightarrow> (Redirect [(Msg_please_log_in, Message)] Ep_login, w)
      | Some u \<Rightarrow> view_func u w)"

definition admin_required :: "view \<Rightarrow> principal option \<Rightarrow> world \<Rightarrow> response \<times> world" where
  "admin_required view_func =
     login_required (\<lambda>u w.
       if \<not> pr_is_admin u then (Redirect [(Msg_admin_only, Error)] Ep_dashboard, w)
       else view_func u w)"

definition upload_required :: "view \<Rightarrow> principal option \<Rightarrow> world \<Rightarrow> response \<times> world" where
  "upload_required view_func =
     login_required (\<lambda>u w.
       if \<not> pr_is_admin u then (Redirect [(Msg_no_upload_permission, Error)] Ep_dashboard, w)
       else view_func u w)"

section \<open>Start-up seeding\<close>

definition insert_user :: "database \<Rightarrow> string \<Rightarrow> string \<Rightarrow> int \<Rightarrow> sql_error + database" where
  \<comment> \<open>\<open>INSERT INTO users (username, password_hash, is_admin)\<close>; \<open>username\<close> is \<open>UNIQUE\<close>\<close>
  "insert_user db name hash adm =
     (if name \<in> set (map username (users db)) then Inl IntegrityError
      else let new_id = next_rowid (seq_users db) (map user_id (users db)) in
        Inr (db\<lparr>users := users db @
               [\<lparr>user_id = new_id, username = name, password_hash = hash, is_admin = adm\<rparr>],
             seq_users := new_id\<rparr>))"

definition backfill_photo :: "int \<Rightarrow> photo_row \<Rightarrow> photo_row" where
  \<comment> \<open>the two \<open>UPDATE photos\<close> of the start-up, on one row\<close>
  "backfill_photo general_id p =
     (let p1 = (if project_id p = None then p\<lparr>project_id := Some general_id\<rparr> else p) in
      case filename p1 of
        None \<Rightarrow> p1
      | Some fn \<Rightarrow>
          if filepath p1 = None \<or> filepath p1 = Some [] then p1\<lparr>filepath := Some (''general/'' @ fn)\<rparr>
          else p1)"

definition ensure_admin_and_default_project :: "env \<Rightarrow> world \<Rightarrow> sql_error + world" where
  "ensure_admin_and_default_project e w =
     (let (db, fs) = w in
      case (if find (\<lambda>u. is_admin u = 1) (users db) = None
            then insert_user db ''admin'' (generate_password_hash e ''admin123'') 1
            else Inr db) of
        Inl err \<Rightarrow> Inl err
      | Inr db1 \<Rightarrow>
         (case (if project_by_slug db1 ''general'' = None
                then insert_project db1 ''General'' ''general'' ''Proyecto por defecto''
                       ''pendiente'' (now_text e)
                else Inr db1) of
            Inl err \<Rightarrow> Inl err
          | Inr db2 \<Rightarrow>
             (case project_by_slug db2 ''general'' of
                None \<Rightarrow> Inl IntegrityError
              | Some general \<Rightarrow>
                  Inr (db2\<lparr>photos := map (backfill_photo (proj_id general)) (photos db2)\<rparr>,
                       mkdir fs ''general''))))"

section \<open>User registry\<close>

definition admin_delete_user :: "int \<Rightarrow> principal \<Rightarrow> world \<Rightarrow> response \<times> world" where
  "admin_delete_user uid cur w =
     (let (db, fs) = w in
      if pr_id cur = uid then (Redirect [(Msg_cannot_delete_self, Error)] Ep_admin_panel, w)
      else case find (\<lambda>u. user_id u = uid) (users db) of
        None \<Rightarrow> (Redirect [(Msg_user_not_found, Error)] Ep_admin_panel, w)
      | Some target \<Rightarrow>
          if is_admin target = 1 \<and> length (filter (\<lambda>u. is_admin u = 1) (users db)) \<le> 1
          then (Redirect [(Msg_last_admin, Error)] Ep_admin_panel, w)
          else
            (Redirect [(Msg_user_deleted (username target), Success)] Ep_admin_panel,
             (db\<lparr>photos := map (\<lambda>p. if uploaded_by p = Some uid then p\<lparr>uploaded_by := None\<rparr> else p)
                              (photos db),
                 users := filter (\<lambda>u. user_id u \<noteq> uid) (users db)\<rparr>,
              fs)))"

definition nulled_owner :: "int \<Rightarrow> photo_row \<Rightarrow> photo_row" where
  \<comment> \<open>a photo row with its owner reference nulled when the owner is \<open>uid\<close>\<close>
  "nulled_owner uid p = (if uploaded_by p = Some uid then p\<lparr>uploaded_by := None\<rparr> else p)"

subsection \<open>Deleting a project\<close>

definition update_photo_location :: "database \<Rightarrow> int \<Rightarrow> int \<Rightarrow> string \<Rightarrow> database" where
  \<comment> \<open>\<open>UPDATE photos SET project_id = ?, filepath = ?, filename = ? WHERE id = ?\<close> with
      \<open>os.path.basename(new_fp)\<close> for the file name\<close>
  "update_photo_location db pid general_id new_fp =
     db\<lparr>photos := map (\<lambda>p. if photo_id p = pid
                            then p\<lparr>project_id := Some general_id, filepath := Some new_fp,
                                   filename := Some (basename new_fp)\<rparr>
                            else p) (photos db)\<rparr>"

definition truthy :: "string option \<Rightarrow> bool" where
  \<comment> \<open>Python's truth of a nullable text: neither \<open>None\<close> nor empty\<close>
  "truthy v = (v \<noteq> None \<and> v \<noteq> Some [])"

definition relocate_old_fp :: "project_row \<Rightarrow> photo_row \<Rightarrow> string" where
  \<comment> \<open>\<open>old_fp\<close> of the loop body\<close>
  "relocate_old_fp proj ph =
     (let old_fp = (case filepath ph of None \<Rightarrow> [] | Some fp \<Rightarrow> strip fp) in
      if old_fp = [] \<and> truthy (filename ph) then slug proj @ ''/'' @ the (filename ph)
      else old_fp)"

definition relocate_old_name :: "env \<Rightarrow> project_row \<Rightarrow> photo_row \<Rightarrow> nat \<Rightarrow> string \<times> nat" where
  \<comment> \<open>\<open>old_name\<close> of the loop body; \<open>k\<close> counts the clock readings so far\<close>
  "relocate_old_name e proj ph k =
     (let old_fp = relocate_old_fp proj ph in
      if old_fp \<noteq> [] then (basename old_fp, k)
      else if truthy (filename ph) then (the (filename ph), k)
      else (str_int (clock e k) @ ''.jpg'', Suc k))"

definition relocate_new_fp ::
  "env \<Rightarrow> project_row \<Rightarrow> photo_row \<Rightarrow> filesystem \<Rightarrow> nat \<Rightarrow> string \<times> nat" where
  \<comment> \<open>\<open>new_fp\<close> as it stands after the \<open>try\<close>: \<open>general/<old_name>\<close>, or with the time
      in front when the source exists and that path is taken\<close>
  "relocate_new_fp e proj ph fs k =
     (let old_fp = relocate_old_fp proj ph;
          (old_name, k1) = relocate_old_name e proj ph k;
          new_fp = ''general/'' @ old_name
      in if old_fp \<noteq> [] \<and> path_exists fs old_fp \<and> path_exists fs new_fp
         then (''general/'' @ str_int (clock e k1) @ ''_'' @ old_name, Suc k1)
         else (new_fp, k1))"

definition relocate_photo ::
  "env \<Rightarrow> project_row \<Rightarrow> project_row \<Rightarrow> photo_row \<Rightarrow> database \<times> filesystem \<times> nat
     \<Rightarrow> database \<times> filesystem \<times> nat" where
  \<comment> \<open>one turn of the \<open>for ph in photos\<close> loop: the move, whose failure is passed over,
      then the \<open>UPDATE\<close>\<close>
  "relocate_photo e proj general ph st =
     (let (db, fs, k) = st;
          old_fp = relocate_old_fp proj ph;
          (new_fp, k') = relocate_new_fp e proj ph fs k;
          fs' = (if old_fp \<noteq> [] \<and> path_exists fs old_fp \<and> replace_error e old_fp new_fp = None
                 then replace_file fs old_fp new_fp else fs)
      in (update_photo_location db (photo_id ph) (proj_id general) new_fp, fs', k'))"


definition admin_delete_project :: "env \<Rightarrow> int \<Rightarrow> principal \<Rightarrow> world \<Rightarrow> response \<times> world" where
  "admin_delete_project e pid cur w =
     (let (db, fs) = w in
      case project_by_id db pid of
        None \<Rightarrow> (Redirect [(Msg_project_not_found, Error)] Ep_admin_panel, w)
      | Some proj \<Rightarrow>
          if slug proj = ''general''
          then (Redirect [(Msg_cannot_delete_general, Error)] Ep_admin_panel, w)
          else case project_by_slug db ''general'' of
            None \<Rightarrow> (Redirect [(Msg_no_general, Error)] Ep_admin_panel, w)
          | Some general \<Rightarrow>
              let phs = filter (\<lambda>p. project_id p = Some pid) (photos db);
                  (db1, fs1, k) = fold (relocate_photo e proj general) phs (db, mkdir fs ''general'', 0);
                  db2 = db1\<lparr>projects := filter (\<lambda>p. proj_id p \<noteq> pid) (projects db1)\<rparr>
              in (Redirect [(Msg_project_deleted, Success)] Ep_admin_panel, (db2, fs1)))"

section \<open>Search and listing\<close>






section \<open>Photo registry\<close>

datatype http_method = GET | POST

record upload_file =
  up_filename :: string
  up_content :: string

record request =
  req_method :: http_method
  req_form :: form
  req_files :: "string \<rightharpoonup> upload_file"

definition get_photo_filepath :: "photo_row \<Rightarrow> string" where
  "get_photo_filepath row =
     (let fp = strip (case filepath row of None \<Rightarrow> [] | Some v \<Rightarrow> v);
          fn = strip (case filename row of None \<Rightarrow> [] | Some v \<Rightarrow> v)
      in if fp \<noteq> [] then fp else if fn \<noteq> [] then ''general/'' @ fn else [])"

definition file_base :: "env \<Rightarrow> string \<Rightarrow> string \<times> nat" where
  \<comment> \<open>\<open>base = secure_filename(display_name).strip("_").lower()\<close>, or \<open>foto_<time>\<close> when
      that is empty; with the number of clock readings taken\<close>
  "file_base e display =
     (let base = lower (strip_chars CHR ''_'' (secure_filename e display)) in
      if base = [] then (''foto_'' @ str_int (clock e 0), 1) else (base, 0))"

definition stamped_name :: "string \<Rightarrow> int \<Rightarrow> string \<Rightarrow> string" where
  \<comment> \<open>\<open>f"{base}_{int(time.time())}.{ext}"\<close>\<close>
  "stamped_name base t ext = base @ ''_'' @ str_int t @ ''.'' @ ext"

definition insert_photo ::
  "database \<Rightarrow> string \<Rightarrow> string \<Rightarrow> string \<Rightarrow> string \<Rightarrow> int \<Rightarrow> int \<Rightarrow> string \<Rightarrow> database" where
  \<comment> \<open>\<open>INSERT INTO photos (filepath, filename, display_name, description, uploaded_by,
      project_id)\<close>; \<open>uploaded_at\<close> defaults to the local time \<open>now\<close>\<close>
  "insert_photo db fp fn display descr uid pid now =
     (let new_id = next_rowid (seq_photos db) (map photo_id (photos db)) in
      db\<lparr>photos := photos db @
            [\<lparr>photo_id = new_id, filepath = Some fp, filename = Some fn, display_name = display,
              description = Some descr, uploaded_at = now, uploaded_by = Some uid,
              project_id = Some pid\<rparr>],
          seq_photos := new_id\<rparr>)"

definition upload :: "env \<Rightarrow> request \<Rightarrow> principal \<Rightarrow> world \<Rightarrow> response \<times> world" where
  "upload e req cur w =
     (let (db, fs) = w in
      if req_method req = POST then
        let file = req_files req ''photo'';
            display = strip (form_get (req_form req) ''display_name'' '''');
            descr = strip (form_get (req_form req) ''description'' '''');
            project_id = strip (form_get (req_form req) ''project_id'' '''')
        in if project_id = [] then (Redirect [(Msg_select_project, Error)] Ep_upload, w)
           else case project_by_id_text e db project_id of
             None \<Rightarrow> (Redirect [(Msg_invalid_project, Error)] Ep_upload, w)
           | Some proj \<Rightarrow>
              (case file of
                 None \<Rightarrow> (Redirect [(Msg_select_image, Error)] Ep_upload, w)
               | Some fl \<Rightarrow>
                  if up_filename fl = [] then (Redirect [(Msg_select_image, Error)] Ep_upload, w)
                  else if display = [] then (Redirect [(Msg_name_required, Error)] Ep_upload, w)
                  else
                    let ext = lstrip_chars CHR ''.'' (lower (path_suffix (up_filename fl))) in
                    if ext \<notin> ALLOWED_EXTENSIONS
                    then (Redirect [(Msg_format_not_allowed, Error)] Ep_upload, w)
                    else
                      let (base, k) = file_base e display;
                          final_name = stamped_name base (clock e k) ext;
                          fp = slug proj @ ''/'' @ final_name;
                          fs' = write_file (mkdir fs (slug proj)) fp (up_content fl)
                      in case py_int e project_id of
                           None \<Rightarrow> (Server_error [], (db, fs'))
                         | Some n \<Rightarrow>
                             (Redirect [(Msg_uploaded, Success)] Ep_dashboard,
                              (insert_photo db fp final_name display descr (pr_id cur) n
                                 (now_text e), fs')))
      else (Render [] ''upload.html'', w))"

definition photo_by_id :: "database \<Rightarrow> int \<Rightarrow> photo_row option" where
  \<comment> \<open>\<open>SELECT ... FROM photos WHERE id = ?\<close>, \<open>fetchone()\<close>\<close>
  "photo_by_id db i = find (\<lambda>p. photo_id p = i) (photos db)"

definition update_photo ::
  "database \<Rightarrow> int \<Rightarrow> string \<Rightarrow> string \<Rightarrow> int \<Rightarrow> string \<Rightarrow> string \<Rightarrow> database" where
  \<comment> \<open>\<open>UPDATE photos SET display_name = ?, description = ?, project_id = ?, filepath = ?,
      filename = ? WHERE id = ?\<close>\<close>
  "update_photo db i display descr pid fp fn =
     db\<lparr>photos := map (\<lambda>p. if photo_id p = i
                            then p\<lparr>display_name := display, description := Some descr,
                                   project_id := Some pid, filepath := Some fp,
                                   filename := Some fn\<rparr>
                            else p) (photos db)\<rparr>"

text \<open>The local values of \<open>edit_photo\<close>, in the order the view computes them.\<close>

definition edit_old_filename :: "photo_row \<Rightarrow> string" where
  \<comment> \<open>\<open>old_filename\<close>\<close>
  "edit_old_filename photo =
     (let old_fp = get_photo_filepath photo in
      if old_fp \<noteq> [] then basename old_fp
      else (case filename photo of None \<Rightarrow> [] | Some v \<Rightarrow> v))"

definition edit_ext :: "photo_row \<Rightarrow> string" where
  \<comment> \<open>\<open>ext\<close>, with its fallback \<open>jpg\<close>\<close>
  "edit_ext photo =
     (let ext = lstrip_chars CHR ''.'' (lower (path_suffix (edit_old_filename photo))) in
      if ext \<notin> ALLOWED_EXTENSIONS then ''jpg'' else ext)"

definition edit_project_changed :: "photo_row \<Rightarrow> string \<Rightarrow> bool" where
  \<comment> \<open>\<open>str(photo["project_id"] or "") != str(new_project_id)\<close>\<close>
  "edit_project_changed photo new_project_id =
     ((case project_id photo of
         None \<Rightarrow> []
       | Some i \<Rightarrow> if i = 0 then [] else str_int i) \<noteq> new_project_id)"

definition edit_name_changed :: "photo_row \<Rightarrow> string \<Rightarrow> bool" where
  \<comment> \<open>\<open>old_display_name.lower() != new_display_name.lower()\<close>\<close>
  "edit_name_changed photo new_display_name =
     (lower (strip (display_name photo)) \<noteq> lower new_display_name)"

definition edit_new_filename :: "env \<Rightarrow> photo_row \<Rightarrow> string \<Rightarrow> string \<times> nat" where
  \<comment> \<open>\<open>new_filename\<close> as it stands before the \<open>try\<close>, and the clock readings taken so far\<close>
  "edit_new_filename e photo new_display_name =
     (let (base, k0) = file_base e new_display_name in
      if edit_name_changed photo new_display_name
      then (stamped_name base (clock e k0) (edit_ext photo), Suc k0)
      else (edit_old_filename photo, k0))"

definition edit_destination ::
  "env \<Rightarrow> photo_row \<Rightarrow> project_row \<Rightarrow> string \<Rightarrow> filesystem \<Rightarrow> string \<times> string" where
  \<comment> \<open>\<open>new_filename\<close> and \<open>new_fp\<close> at the call of \<open>replace\<close>: renamed once more when the
      path first chosen exists\<close>
  "edit_destination e photo new_proj new_display_name fs =
     (let (new_filename, k1) = edit_new_filename e photo new_display_name;
          new_fp = slug new_proj @ ''/'' @ new_filename
      in if path_exists fs new_fp
         then let again = stamped_name (fst (file_base e new_display_name)) (clock e k1)
                            (edit_ext photo)
              in (again, slug new_proj @ ''/'' @ again)
         else (new_filename, new_fp))"

definition edit_photo :: "env \<Rightarrow> int \<Rightarrow> request \<Rightarrow> principal \<Rightarrow> world \<Rightarrow> response \<times> world" where
  "edit_photo e pid req cur w =
     (let (db, fs) = w in
      case photo_by_id db pid of
        None \<Rightarrow> (Redirect [(Msg_photo_not_found, Error)] Ep_dashboard, w)
      | Some photo \<Rightarrow>
        if req_method req = POST then
          let new_display_name = strip (form_get (req_form req) ''display_name'' '''');
              new_description = strip (form_get (req_form req) ''description'' '''');
              new_project_id = strip (form_get (req_form req) ''project_id'' '''')
          in if new_display_name = []
             then (Redirect [(Msg_name_required, Error)] (Ep_edit_photo pid), w)
             else if new_project_id = []
             then (Redirect [(Msg_select_project, Error)] (Ep_edit_photo pid), w)
             else case project_by_id_text e db new_project_id of
               None \<Rightarrow> (Redirect [(Msg_invalid_project, Error)] (Ep_edit_photo pid), w)
             | Some new_proj \<Rightarrow>
                let old_fp = get_photo_filepath photo;
                    old_filename = edit_old_filename photo;
                    project_changed = edit_project_changed photo new_project_id;
                    name_changed = edit_name_changed photo new_display_name;
                    new_filename = fst (edit_new_filename e photo new_display_name);
                    new_fp = slug new_proj @ ''/'' @ new_filename;
                    fs1 = mkdir fs (slug new_proj);
                    saved = (\<lambda>warn fs' fp fn.
                      case py_int e new_project_id of
                        None \<Rightarrow> (Server_error warn, (db, fs'))
                      | Some n \<Rightarrow>
                          (Redirect (warn @ [(Msg_photo_updated, Success)]) Ep_dashboard,
                           (update_photo db pid new_display_name new_description n fp fn,
                            fs')))
                in if project_changed \<or> name_changed then
                     if old_fp \<noteq> [] \<and> path_exists fs1 old_fp then
                       let (new_filename2, new_fp2) =
                             edit_destination e photo new_proj new_display_name fs1
                       in case replace_error e old_fp new_fp2 of
                            Some err \<Rightarrow>
                              (Redirect [(Msg_move_failed err, Error)] (Ep_edit_photo pid), (db, fs1))
                          | None \<Rightarrow> saved [] (replace_file fs1 old_fp new_fp2) new_fp2 new_filename2
                     else saved [(Msg_file_missing, Error)] fs1 old_fp old_filename
                   else saved [] fs1 new_fp new_filename
        else (Render [] ''edit_photo.html'', w))"

definition delete_photo :: "env \<Rightarrow> int \<Rightarrow> principal \<Rightarrow> world \<Rightarrow> response \<times> world" where
  "delete_photo e pid cur w =
     (let (db, fs) = w in
      case photo_by_id db pid of
        None \<Rightarrow> (Redirect [(Msg_photo_not_found, Error)] Ep_dashboard, w)
      | Some photo \<Rightarrow>
          let fp = get_photo_filepath photo;
              fs' = (if fp \<noteq> [] \<and> path_exists fs fp \<and> unlink_error e fp = None
                     then unlink fs fp else fs)
          in (Redirect [(Msg_photo_deleted, Success)] Ep_dashboard,
              (db\<lparr>photos := filter (\<lambda>p. photo_id p \<noteq> pid) (photos db)\<rparr>, fs')))"

section \<open>Routes\<close>

text \<open>
  A route is its view under its decorator, run for the principal of the session.
\<close>

definition route_upload :: "env \<Rightarrow> int option \<Rightarrow> request \<Rightarrow> world \<Rightarrow> response \<times> world" where
  "route_upload e sess req w = upload_required (upload e req) (current_user (fst w) sess) w"

definition route_edit_photo ::
  "env \<Rightarrow> int option \<Rightarrow> int \<Rightarrow> request \<Rightarrow> world \<Rightarrow> response \<times> world" where
  "route_edit_photo e sess pid req w =
     admin_required (edit_photo e pid req) (current_user (fst w) sess) w"

definition route_delete_photo :: "env \<Rightarrow> int option \<Rightarrow> int \<Rightarrow> world \<Rightarrow> response \<times> world" where
  "route_delete_photo e sess pid w =
     admin_required (delete_photo e pid) (current_user (fst w) sess) w"

definition route_admin_delete_user :: "int option \<Rightarrow> int \<Rightarrow> world \<Rightarrow> response \<times> world" where
  "route_admin_delete_user sess uid w =
     admin_required (admin_delete_user uid) (current_user (fst w) sess) w"

definition route_admin_delete_project ::
  "env \<Rightarrow> int option \<Rightarrow> int \<Rightarrow> world \<Rightarrow> response \<times> world" where
  "route_admin_delete_project e sess pid w =
     admin_required (admin_delete_project e pid) (current_user (fst w) sess) w"

section \<open>The slug as the specification words it\<close>

text \<open>
  The specification describes the slug as the name "lowercased, whitespace to underscore,
  non-alphanumeric stripped, truncated to 60 chars". Read by its words, with the underscore
  that the second step writes kept by the third:
\<close>

definition spec_slug_char :: "char \<Rightarrow> bool" where
  "spec_slug_char c = (c \<in> set ''abcdefghijklmnopqrstuvwxyz0123456789_'')"

definition slug_from_spec_words :: "string \<Rightarrow> string" where
  "slug_from_spec_words name = take 60 (filter spec_slug_char (sub_ws (lower name)))"

section \<open>The listing as the specification words it\<close>









section \<open>Example data\<close>

text \<open>
  A reading of \<open>date(...)\<close> for time texts that start with \<open>YYYY-MM-DD\<close>, and SQLite's
  reading of the two texts \<open>2.0\<close> and \<open>2e0\<close>.
\<close>

definition ex_sql_date :: "string \<Rightarrow> string option" where
  "ex_sql_date s = (if 10 \<le> length s then Some (take 10 s) else None)"

definition ex_sql_numeric :: "string \<Rightarrow> int option" where
  "ex_sql_numeric = map_of [(''2.0'', 2), (''2e0'', 2)]"

text \<open>
  A freshly seeded installation, on which the theorems below are instantiated. Its
  \<open>int(...)\<close> reads the signed runs of decimal digits and rejects the other text used
  below, \<open>2.0\<close>.
\<close>

definition ex_env :: env where
  "ex_env = \<lparr>clock = (\<lambda>k. 1700000000 + int k), now_text = ''2024-01-15 10:00:00'',
             replace_error = (\<lambda>src dst. None), unlink_error = (\<lambda>p. None),
             secure_filename = map (\<lambda>c. if c = CHR '' '' then CHR ''_'' else c),
             generate_password_hash = (\<lambda>pw. ''hash:'' @ pw),
             sql_date = ex_sql_date, sql_numeric = ex_sql_numeric, py_int = int_of_text\<rparr>"

definition ex_general :: project_row where
  "ex_general = \<lparr>proj_id = 1, proj_name = ''General'', slug = ''general'',
                 created_at = ''2024-01-01 09:00:00'',
                 proj_description = Some ''Proyecto por defecto'', status = ''pendiente''\<rparr>"

definition ex_admin :: user_row where
  "ex_admin = \<lparr>user_id = 1, username = ''admin'', password_hash = ''hash:admin123'', is_admin = 1\<rparr>"

definition ex_db0 :: database where
  "ex_db0 = \<lparr>users = [ex_admin], projects = [ex_general], photos = [],
             seq_users = 1, seq_projects = 1, seq_photos = 0\<rparr>"

definition ex_fs0 :: filesystem where
  "ex_fs0 = \<lparr>files = Map.empty, dirs = {''general''}\<rparr>"

text \<open>
  An installation in use: a second, non-administrator user, a project \<open>Roof\<close>, and three
  photos, one of them in \<open>Roof\<close> under a file name that \<open>General\<close> holds too.
\<close>

definition ex_ana :: user_row where
  "ex_ana = \<lparr>user_id = 2, username = ''ana'', password_hash = ''hash:ana'', is_admin = 0\<rparr>"

definition ex_roof :: project_row where
  "ex_roof = \<lparr>proj_id = 2, proj_name = ''Roof'', slug = ''roof'',
              created_at = ''2024-01-02 09:00:00'', proj_description = Some '''',
              status = ''pendiente''\<rparr>"

definition ex_panel :: photo_row where
  "ex_panel = \<lparr>photo_id = 1, filepath = Some ''roof/panel_1_1700000000.jpg'',
               filename = Some ''panel_1_1700000000.jpg'', display_name = ''Panel 1'',
               description = Some ''first'', uploaded_at = ''2024-01-10 08:00:00'',
               uploaded_by = Some 2, project_id = Some 2\<rparr>"

definition ex_gx :: photo_row where
  "ex_gx = \<lparr>photo_id = 2, filepath = Some ''general/x.jpg'', filename = Some ''x.jpg'',
            display_name = ''abc'', description = None, uploaded_at = ''2024-01-11 08:00:00'',
            uploaded_by = Some 1, project_id = Some 1\<rparr>"

definition ex_rx :: photo_row where
  "ex_rx = \<lparr>photo_id = 3, filepath = Some ''roof/x.jpg'', filename = Some ''x.jpg'',
            display_name = ''X'', description = Some ''roof x'', uploaded_at = ''2024-01-12 08:00:00'',
            uploaded_by = Some 2, project_id = Some 2\<rparr>"

definition ex_db :: database where
  "ex_db = \<lparr>users = [ex_admin, ex_ana], projects = [ex_general, ex_roof],
            photos = [ex_panel, ex_gx, ex_rx],
            seq_users = 2, seq_projects = 2, seq_photos = 3\<rparr>"

definition ex_fs :: filesystem where
  "ex_fs = \<lparr>files = [''roof/panel_1_1700000000.jpg'' \<mapsto> ''P1'', ''general/x.jpg'' \<mapsto> ''GX'',
                     ''roof/x.jpg'' \<mapsto> ''RX''],
            dirs = {''general'', ''roof''}\<rparr>"

text \<open>An upload of a GIF image to the project \<open>Roof\<close>.\<close>

definition ex_gif_request :: request where
  "ex_gif_request = \<lparr>req_method = POST,
     req_form = [''display_name'' \<mapsto> ''Panel 2'', ''description'' \<mapsto> ''second'',
                 ''project_id'' \<mapsto> ''2''],
     req_files = [''photo'' \<mapsto> \<lparr>up_filename = ''panel.GIF'', up_content = ''GIF89a''\<rparr>]\<rparr>"

text \<open>An installation before its first start.\<close>

definition ex_empty_db :: database where
  "ex_empty_db = \<lparr>users = [], projects = [], photos = [],
                  seq_users = 0, seq_projects = 0, seq_photos = 0\<rparr>"

definition ex_empty_fs :: filesystem where
  "ex_empty_fs = \<lparr>files = Map.empty, dirs = {}\<rparr>"

text \<open>
  An operating system that refuses every \<open>replace\<close>, and an edit that renames the photo
  \<open>Panel 1\<close>.
\<close>

definition ex_env_denied :: env where
  "ex_env_denied = ex_env\<lparr>replace_error := (\<lambda>src dst. Some ''Permission denied'')\<rparr>"

definition ex_rename_request :: request where
  "ex_rename_request = \<lparr>req_method = POST,
     req_form = [''display_name'' \<mapsto> ''Panel One'', ''description'' \<mapsto> ''first'',
                 ''project_id'' \<mapsto> ''2''],
     req_files = Map.empty\<rparr>"









section \<open>Verified properties\<close>

subsection \<open>Slugs\<close>

lemma take_filter_all: "list_all P (take n (filter P xs))"
  by (auto simp: list_all_iff dest: in_set_takeD)

text \<open>
  Claim C10. For every input string, \<open>slugify\<close> returns a non-empty string of at most
  60 characters, each a lowercase letter, a digit, an underscore or a hyphen; when the
  normalisation of the input leaves nothing, it returns the fixed slug \<open>proyecto\<close>.
\<close>

theorem slugify_shape:
  "slugify s \<noteq> [] \<and> length (slugify s) \<le> 60 \<and> list_all slug_char (slugify s) \<and>
   (filter slug_char (sub_ws (lower (strip s))) = [] \<longrightarrow> slugify s = ''proyecto'')"
proof -
  let ?n = "filter slug_char (sub_ws (lower (strip s)))"
  show ?thesis
  proof (cases "?n = []")
    case True
    then have "slugify s = ''proyecto''"
      by (simp add: slugify_def)
    then show ?thesis
      by (simp add: slug_char_def)
  next
    case False
    then have eq: "slugify s = take 60 ?n"
      by (simp add: slugify_def Let_def)
    from False have "take 60 ?n \<noteq> []" by simp
    moreover have "list_all slug_char (take 60 ?n)" by (rule take_filter_all)
    ultimately show ?thesis using False eq by simp
  qed
qed

theorem slugify_shape_witness:
  "filter slug_char (sub_ws (lower (strip ''!!''))) = [] \<and> slugify ''!!'' = ''proyecto'' \<and>
   slugify ''Roof A'' = ''roof_a'' \<and> list_all slug_char (slugify ''Roof A'') \<and>
   filter slug_char (sub_ws (lower (strip [CHR 0xA0, CHR '' '', CHR 0x85]))) = [] \<and>
   slugify [CHR 0xA0, CHR '' '', CHR 0x85] = ''proyecto'' \<and>
   slugify [CHR ''!'', CHR 0xA0, CHR ''!''] = ''_'' \<and>
   list_all slug_char (slugify [CHR ''!'', CHR 0xA0, CHR ''!''])"
proof -
  have e: "filter slug_char (sub_ws (lower (strip ''!!''))) = []"
    by code_simp
  have r: "slugify ''Roof A'' = ''roof_a''"
    by code_simp
  have f: "filter slug_char (sub_ws (lower (strip [CHR 0xA0, CHR '' '', CHR 0x85]))) = []"
    by code_simp
  have u: "slugify [CHR ''!'', CHR 0xA0, CHR ''!''] = ''_''"
    by code_simp
  from slugify_shape [of "''!!''"] slugify_shape [of "''Roof A''"]
    slugify_shape [of "[CHR 0xA0, CHR '' '', CHR 0x85]"]
    slugify_shape [of "[CHR ''!'', CHR 0xA0, CHR ''!'']"] e r f u
  show ?thesis
    by simp
qed

lemma slug_loop_result:
  "slug_loop taken base s i \<notin> set taken \<and>
   (if s \<in> set taken
    then (\<exists>j\<ge>i. slug_loop taken base s i = slug_candidate base j \<and>
            (\<forall>k. i \<le> k \<and> k < j \<longrightarrow> slug_candidate base k \<in> set taken))
    else slug_loop taken base s i = s)"
proof (induction taken base s i rule: slug_loop.induct)
  case (1 taken base s i)
  show ?case
  proof (cases "s \<in> set taken")
    case False
    then show ?thesis by (simp add: slug_loop.simps [of taken base s i])
  next
    case True
    then have step: "slug_loop taken base s i = slug_loop taken base (slug_candidate base i) (Suc i)"
      by (simp add: slug_loop.simps [of taken base s i])
    note ih = "1.IH" [OF True]
    show ?thesis
    proof (cases "slug_candidate base i \<in> set taken")
      case False
      with ih have "slug_loop taken base (slug_candidate base i) (Suc i) = slug_candidate base i"
        by simp
      with step True False show ?thesis
        by (auto intro!: exI [of _ i])
    next
      case t: True
      with ih obtain j where j: "Suc i \<le> j"
        "slug_loop taken base (slug_candidate base i) (Suc i) = slug_candidate base j"
        "\<forall>k. Suc i \<le> k \<and> k < j \<longrightarrow> slug_candidate base k \<in> set taken"
        by auto
      have "\<forall>k. i \<le> k \<and> k < j \<longrightarrow> slug_candidate base k \<in> set taken"
      proof (intro allI impI)
        fix k assume "i \<le> k \<and> k < j"
        then show "slug_candidate base k \<in> set taken"
          using j(3) t by (cases "k = i") auto
      qed
      with j ih step True show ?thesis
        by (auto intro!: exI [of _ j])
    qed
  qed
qed

lemma created_iff:
  assumes "strip (form_get f ''project_name'' []) = name" "name \<noteq> []"
    "name \<notin> set (map proj_name (projects db))"
  shows "admin_create_project e f (db, fs) =
     (Redirect [(Msg_project_created, Success)] Ep_admin_panel,
      (db\<lparr>projects := projects db @
            [\<lparr>proj_id = next_rowid (seq_projects db) (map proj_id (projects db)),
              proj_name = name,
              slug = slug_loop (map slug (projects db)) (slugify name) (slugify name) 2,
              created_at = now_text e,
              proj_description = Some (strip (form_get f ''project_description'' [])),
              status = strip (form_get f ''project_status'' ''pendiente'')\<rparr>],
          seq_projects := next_rowid (seq_projects db) (map proj_id (projects db))\<rparr>,
       mkdir fs (slug_loop (map slug (projects db)) (slugify name) (slugify name) 2)))"
proof -
  have "slug_loop (map slug (projects db)) (slugify name) (slugify name) 2
      \<notin> set (map slug (projects db))"
    using slug_loop_result [of "map slug (projects db)" "slugify name" "slugify name" 2] by simp
  with assms show ?thesis
    by (simp add: admin_create_project_def insert_project_def Let_def)
qed

text \<open>
  Claim C5, as the specification words it, fails: \<open>slugify\<close> keeps the hyphen, which is
  not alphanumeric (and a name that leaves nothing gets the slug \<open>proyecto\<close>).
\<close>

theorem slug_not_as_worded: "slugify ''a-b'' = ''a-b'' \<and> slug_from_spec_words ''a-b'' = ''ab''"
  by (simp add: slugify_def slug_from_spec_words_def strip_def lower_def is_space_def
      lower_char_def slug_char_def spec_slug_char_def)

text \<open>
  Claim C5, amended. The slug of a project name is the name trimmed, lowercased, its runs
  of whitespace replaced by one underscore each, every character other than a lowercase
  letter, a digit, an underscore or a hyphen removed, cut to 60 characters, and
  \<open>proyecto\<close> when nothing is left. When two projects are created one after the other
  with different, new, non-empty names that have the same slug, both are created, and
  the second gets that slug followed by \<open>_i\<close> for the least \<open>i \<ge> 2\<close> whose candidate no
  project has: a slug no other project has, the first one's included.
\<close>

theorem create_project_slugs:
  assumes n1: "strip (form_get f1 ''project_name'' []) = name1"
    and n2: "strip (form_get f2 ''project_name'' []) = name2"
    and ne1: "name1 \<noteq> []" and ne2: "name2 \<noteq> []"
    and fresh1: "name1 \<notin> set (map proj_name (projects db0))"
    and fresh2: "name2 \<notin> set (map proj_name (projects db0))"
    and diff: "name1 \<noteq> name2"
    and same: "slugify name1 = slugify name2"
  shows "slugify name2 =
      (let n = filter slug_char (sub_ws (lower (strip name2)))
       in if n = [] then ''proyecto'' else take 60 n) \<and>
    (\<exists>db1 fs1 db2 fs2 p1 p2 i.
      admin_create_project e1 f1 (db0, fs0) =
        (Redirect [(Msg_project_created, Success)] Ep_admin_panel, (db1, fs1)) \<and>
      admin_create_project e2 f2 (db1, fs1) =
        (Redirect [(Msg_project_created, Success)] Ep_admin_panel, (db2, fs2)) \<and>
      projects db1 = projects db0 @ [p1] \<and> projects db2 = projects db1 @ [p2] \<and>
      proj_name p1 = name1 \<and> proj_name p2 = name2 \<and>
      (slug p1 = slugify name1 \<or> (\<exists>j\<ge>2. slug p1 = slugify name1 @ ''_'' @ str_nat j)) \<and>
      2 \<le> i \<and> slug p2 = slugify name2 @ ''_'' @ str_nat i \<and>
      slug p2 \<notin> set (map slug (projects db1)) \<and> slug p2 \<noteq> slug p1 \<and>
      (\<forall>k. 2 \<le> k \<and> k < i \<longrightarrow> slugify name2 @ ''_'' @ str_nat k \<in> set (map slug (projects db1))))"
proof
  show "slugify name2 =
      (let n = filter slug_char (sub_ws (lower (strip name2)))
       in if n = [] then ''proyecto'' else take 60 n)"
    by (simp add: slugify_def Let_def)
next
  let ?base = "slugify name2"
  let ?taken0 = "map slug (projects db0)"
  let ?s1 = "slug_loop ?taken0 ?base ?base 2"
  let ?p1 = "\<lparr>proj_id = next_rowid (seq_projects db0) (map proj_id (projects db0)),
              proj_name = name1, slug = ?s1, created_at = now_text e1,
              proj_description = Some (strip (form_get f1 ''project_description'' [])),
              status = strip (form_get f1 ''project_status'' ''pendiente'')\<rparr>"
  let ?db1 = "db0\<lparr>projects := projects db0 @ [?p1],
                  seq_projects := next_rowid (seq_projects db0) (map proj_id (projects db0))\<rparr>"
  let ?fs1 = "mkdir fs0 ?s1"
  let ?taken1 = "map slug (projects ?db1)"
  let ?s2 = "slug_loop ?taken1 ?base ?base 2"
  let ?p2 = "\<lparr>proj_id = next_rowid (seq_projects ?db1) (map proj_id (projects ?db1)),
              proj_name = name2, slug = ?s2, created_at = now_text e2,
              proj_description = Some (strip (form_get f2 ''project_description'' [])),
              status = strip (form_get f2 ''project_status'' ''pendiente'')\<rparr>"
  let ?db2 = "?db1\<lparr>projects := projects ?db1 @ [?p2],
                  seq_projects := next_rowid (seq_projects ?db1) (map proj_id (projects ?db1))\<rparr>"
  let ?fs2 = "mkdir ?fs1 ?s2"
  have c1: "admin_create_project e1 f1 (db0, fs0) =
      (Redirect [(Msg_project_created, Success)] Ep_admin_panel, (?db1, ?fs1))"
    using created_iff [OF n1 ne1 fresh1, of e1 fs0] same by simp
  have "name2 \<notin> set (map proj_name (projects ?db1))"
    using fresh2 diff by simp
  from created_iff [OF n2 ne2 this, of e2 ?fs1]
  have c2: "admin_create_project e2 f2 (?db1, ?fs1) =
      (Redirect [(Msg_project_created, Success)] Ep_admin_panel, (?db2, ?fs2))" .
  have t1: "?taken1 = ?taken0 @ [?s1]" by simp
  note r1 = slug_loop_result [of ?taken0 ?base ?base 2]
  have shape1: "?s1 = ?base \<or> (\<exists>j\<ge>2. ?s1 = ?base @ ''_'' @ str_nat j)"
    using r1 by (auto simp: slug_candidate_def split: if_splits)
  have in1: "?base \<in> set ?taken1"
    using r1 by (cases "?base \<in> set ?taken0") (simp_all only: t1 set_append, auto)
  note r2 = slug_loop_result [of ?taken1 ?base ?base 2]
  from r2 in1 obtain i where i: "2 \<le> i" "?s2 = slug_candidate ?base i"
    "\<forall>k. 2 \<le> k \<and> k < i \<longrightarrow> slug_candidate ?base k \<in> set ?taken1"
    by (auto simp only: if_True)
  from r2 have out2: "?s2 \<notin> set ?taken1" by (rule conjunct1)
  then have ne12: "?s2 \<noteq> ?s1" unfolding t1 by auto
  show "\<exists>db1 fs1 db2 fs2 p1 p2 i.
      admin_create_project e1 f1 (db0, fs0) =
        (Redirect [(Msg_project_created, Success)] Ep_admin_panel, (db1, fs1)) \<and>
      admin_create_project e2 f2 (db1, fs1) =
        (Redirect [(Msg_project_created, Success)] Ep_admin_panel, (db2, fs2)) \<and>
      projects db1 = projects db0 @ [p1] \<and> projects db2 = projects db1 @ [p2] \<and>
      proj_name p1 = name1 \<and> proj_name p2 = name2 \<and>
      (slug p1 = slugify name1 \<or> (\<exists>j\<ge>2. slug p1 = slugify name1 @ ''_'' @ str_nat j)) \<and>
      2 \<le> i \<and> slug p2 = slugify name2 @ ''_'' @ str_nat i \<and>
      slug p2 \<notin> set (map slug (projects db1)) \<and> slug p2 \<noteq> slug p1 \<and>
      (\<forall>k. 2 \<le> k \<and> k < i \<longrightarrow> slugify name2 @ ''_'' @ str_nat k \<in> set (map slug (projects db1)))"
    apply (rule exI [of _ ?db1], rule exI [of _ ?fs1], rule exI [of _ ?db2], rule exI [of _ ?fs2])
    apply (rule exI [of _ ?p1], rule exI [of _ ?p2], rule exI [of _ i])
    apply (intro conjI)
    subgoal by (rule c1)
    subgoal by (rule c2)
    subgoal by simp
    subgoal by simp
    subgoal by simp
    subgoal by simp
    subgoal using shape1 same by simp
    subgoal by (rule i(1))
    subgoal using i(2) by (simp add: slug_candidate_def)
    subgoal using out2 by simp
    subgoal using ne12 by simp
    subgoal using i(3) by (simp add: slug_candidate_def)
    done
qed

theorem create_project_slugs_witness:
  "strip (form_get [''project_name'' \<mapsto> ''Roof A''] ''project_name'' []) = ''Roof A'' \<and>
   strip (form_get [''project_name'' \<mapsto> ''Roof A!!''] ''project_name'' []) = ''Roof A!!'' \<and>
   ''Roof A'' \<notin> set (map proj_name (projects ex_db0)) \<and>
   ''Roof A!!'' \<notin> set (map proj_name (projects ex_db0)) \<and>
   slugify ''Roof A'' = slugify ''Roof A!!'' \<and>
   slugify ''Roof A!!'' = ''roof_a'' \<and>
   slugify (''Roof'' @ [CHR 0xA0] @ ''A'') = ''roof_a'' \<and>
   map slug (projects (fst (snd (admin_create_project ex_env [''project_name'' \<mapsto> ''Roof A!!'']
     (snd (admin_create_project ex_env [''project_name'' \<mapsto> ''Roof A''] (ex_db0, ex_fs0)))))))
     = [''general'', ''roof_a'', ''roof_a_2''] \<and>
   (\<exists>db1 fs1 db2 fs2 p1 p2 i.
      admin_create_project ex_env [''project_name'' \<mapsto> ''Roof A''] (ex_db0, ex_fs0) =
        (Redirect [(Msg_project_created, Success)] Ep_admin_panel, (db1, fs1)) \<and>
      admin_create_project ex_env [''project_name'' \<mapsto> ''Roof A!!''] (db1, fs1) =
        (Redirect [(Msg_project_created, Success)] Ep_admin_panel, (db2, fs2)) \<and>
      projects db1 = projects ex_db0 @ [p1] \<and> projects db2 = projects db1 @ [p2] \<and>
      proj_name p1 = ''Roof A'' \<and> proj_name p2 = ''Roof A!!'' \<and>
      (slug p1 = slugify ''Roof A'' \<or> (\<exists>j\<ge>2. slug p1 = slugify ''Roof A'' @ ''_'' @ str_nat j)) \<and>
      2 \<le> i \<and> slug p2 = slugify ''Roof A!!'' @ ''_'' @ str_nat i \<and>
      slug p2 \<notin> set (map slug (projects db1)) \<and> slug p2 \<noteq> slug p1 \<and>
      (\<forall>k. 2 \<le> k \<and> k < i \<longrightarrow>
           slugify ''Roof A!!'' @ ''_'' @ str_nat k \<in> set (map slug (projects db1))))"
proof -
  have h1: "strip (form_get [''project_name'' \<mapsto> ''Roof A''] ''project_name'' []) = ''Roof A''"
    by code_simp
  have h2: "strip (form_get [''project_name'' \<mapsto> ''Roof A!!''] ''project_name'' []) = ''Roof A!!''"
    by code_simp
  have h3: "''Roof A'' \<noteq> []" and h4: "''Roof A!!'' \<noteq> []" and h5: "''Roof A'' \<noteq> ''Roof A!!''"
    by simp_all
  have h6: "''Roof A'' \<notin> set (map proj_name (projects ex_db0))"
    by code_simp
  have h7: "''Roof A!!'' \<notin> set (map proj_name (projects ex_db0))"
    by code_simp
  have s1: "slugify ''Roof A'' = slugify ''Roof A!!''" by code_simp
  have s2: "slugify ''Roof A!!'' = ''roof_a''" by code_simp
  have s3: "slugify (''Roof'' @ [CHR 0xA0] @ ''A'') = ''roof_a''" by code_simp
  have run: "map slug (projects (fst (snd (admin_create_project ex_env [''project_name'' \<mapsto> ''Roof A!!'']
     (snd (admin_create_project ex_env [''project_name'' \<mapsto> ''Roof A''] (ex_db0, ex_fs0)))))))
     = [''general'', ''roof_a'', ''roof_a_2'']"
    by code_simp
  note c = create_project_slugs [OF h1 h2 h3 h4 h6 h7 h5 s1, of ex_env ex_fs0 ex_env,
      THEN conjunct2]
  show ?thesis
    apply (intro conjI)
    subgoal by (rule h1)
    subgoal by (rule h2)
    subgoal by (rule h6)
    subgoal by (rule h7)
    subgoal by (rule s1)
    subgoal by (rule s2)
    subgoal by (rule s3)
    subgoal by (rule run)
    subgoal by (rule c)
    done
qed

subsection \<open>Permissions\<close>

text \<open>
  Claim C9. Upload, edit photo and delete photo need an administrator: for a request of a
  logged-in user who is not one, each of the three routes flashes its message, redirects
  to the listing and leaves the database and the uploads tree as they were.
\<close>

theorem photo_mutation_needs_admin:
  assumes "current_user (fst w) sess = Some u" and "\<not> pr_is_admin u"
  shows "route_upload e sess req w = (Redirect [(Msg_no_upload_permission, Error)] Ep_dashboard, w) \<and>
         route_edit_photo e sess pid req w = (Redirect [(Msg_admin_only, Error)] Ep_dashboard, w) \<and>
         route_delete_photo e sess pid w = (Redirect [(Msg_admin_only, Error)] Ep_dashboard, w)"
  using assms
  by (simp add: route_upload_def route_edit_photo_def route_delete_photo_def
      upload_required_def admin_required_def login_required_def)

theorem photo_mutation_needs_admin_witness:
  "current_user (fst (ex_db, ex_fs)) (Some 2) = Some (User ex_ana) \<and> \<not> pr_is_admin (User ex_ana) \<and>
   route_upload ex_env (Some 2) \<lparr>req_method = POST, req_form = Map.empty, req_files = Map.empty\<rparr>
     (ex_db, ex_fs) = (Redirect [(Msg_no_upload_permission, Error)] Ep_dashboard, (ex_db, ex_fs)) \<and>
   route_edit_photo ex_env (Some 2) 1
     \<lparr>req_method = POST, req_form = Map.empty, req_files = Map.empty\<rparr>
     (ex_db, ex_fs) = (Redirect [(Msg_admin_only, Error)] Ep_dashboard, (ex_db, ex_fs)) \<and>
   route_delete_photo ex_env (Some 2) 1 (ex_db, ex_fs) =
     (Redirect [(Msg_admin_only, Error)] Ep_dashboard, (ex_db, ex_fs))"
proof -
  have h1: "current_user (fst (ex_db, ex_fs)) (Some 2) = Some (User ex_ana)"
    by (simp add: current_user_def load_user_def ex_db_def ex_admin_def ex_ana_def)
  have h2: "\<not> pr_is_admin (User ex_ana)"
    by (simp add: User_def ex_ana_def)
  from photo_mutation_needs_admin [OF h1 h2] h1 h2 show ?thesis
    by simp
qed

subsection \<open>Deleting a user\<close>

text \<open>
  Claim C6. Deleting a user fails, with an error and no change of state, when the target
  is the requesting administrator's own account, and when the target is the last
  remaining administrator. When a user is deleted, every photo they own has its
  \<open>uploaded_by\<close> reference set to null, and no photo is deleted: the photo rows are the
  same rows, in the same order, with the same identifiers.
\<close>

theorem delete_user_rules:
  "(pr_id cur = uid \<longrightarrow>
      admin_delete_user uid cur w = (Redirect [(Msg_cannot_delete_self, Error)] Ep_admin_panel, w)) \<and>
   (pr_id cur \<noteq> uid \<and> find (\<lambda>u. user_id u = uid) (users (fst w)) = Some target \<and>
    is_admin target = 1 \<and> length (filter (\<lambda>u. is_admin u = 1) (users (fst w))) \<le> 1 \<longrightarrow>
      admin_delete_user uid cur w = (Redirect [(Msg_last_admin, Error)] Ep_admin_panel, w)) \<and>
   (pr_id cur \<noteq> uid \<and> find (\<lambda>u. user_id u = uid) (users (fst w)) = Some target \<and>
    \<not> (is_admin target = 1 \<and> length (filter (\<lambda>u. is_admin u = 1) (users (fst w))) \<le> 1) \<longrightarrow>
      (\<exists>db'. admin_delete_user uid cur w =
           (Redirect [(Msg_user_deleted (username target), Success)] Ep_admin_panel, (db', snd w)) \<and>
         users db' = filter (\<lambda>u. user_id u \<noteq> uid) (users (fst w)) \<and>
         photos db' = map (nulled_owner uid) (photos (fst w)) \<and>
         length (photos db') = length (photos (fst w)) \<and>
         map photo_id (photos db') = map photo_id (photos (fst w)) \<and>
         (\<forall>p \<in> set (photos db'). uploaded_by p \<noteq> Some uid) \<and>
         projects db' = projects (fst w)))"
proof (intro conjI impI)
  assume "pr_id cur = uid"
  then show "admin_delete_user uid cur w =
      (Redirect [(Msg_cannot_delete_self, Error)] Ep_admin_panel, w)"
    by (simp add: admin_delete_user_def split: prod.splits)
next
  assume "pr_id cur \<noteq> uid \<and> find (\<lambda>u. user_id u = uid) (users (fst w)) = Some target \<and>
    is_admin target = 1 \<and> length (filter (\<lambda>u. is_admin u = 1) (users (fst w))) \<le> 1"
  then show "admin_delete_user uid cur w = (Redirect [(Msg_last_admin, Error)] Ep_admin_panel, w)"
    by (cases w) (simp add: admin_delete_user_def)
next
  assume a: "pr_id cur \<noteq> uid \<and> find (\<lambda>u. user_id u = uid) (users (fst w)) = Some target \<and>
    \<not> (is_admin target = 1 \<and> length (filter (\<lambda>u. is_admin u = 1) (users (fst w))) \<le> 1)"
  obtain db fs where w: "w = (db, fs)" by (cases w)
  let ?db' = "db\<lparr>photos := map (nulled_owner uid) (photos db),
                 users := filter (\<lambda>u. user_id u \<noteq> uid) (users db)\<rparr>"
  have run: "admin_delete_user uid cur w =
      (Redirect [(Msg_user_deleted (username target), Success)] Ep_admin_panel, (?db', snd w))"
    using a unfolding w nulled_owner_def by (auto simp add: admin_delete_user_def)
  have ids: "map photo_id (map (nulled_owner uid) (photos db)) = map photo_id (photos db)"
    by (induction "photos db") (simp_all add: nulled_owner_def comp_def)
  have gone: "\<forall>p \<in> set (map (nulled_owner uid) (photos db)). uploaded_by p \<noteq> Some uid"
    by (auto simp: nulled_owner_def)
  show "\<exists>db'. admin_delete_user uid cur w =
           (Redirect [(Msg_user_deleted (username target), Success)] Ep_admin_panel, (db', snd w)) \<and>
         users db' = filter (\<lambda>u. user_id u \<noteq> uid) (users (fst w)) \<and>
         photos db' = map (nulled_owner uid) (photos (fst w)) \<and>
         length (photos db') = length (photos (fst w)) \<and>
         map photo_id (photos db') = map photo_id (photos (fst w)) \<and>
         (\<forall>p \<in> set (photos db'). uploaded_by p \<noteq> Some uid) \<and>
         projects db' = projects (fst w)"
    apply (rule exI [of _ ?db'])
    using run ids gone unfolding w by simp
qed


theorem delete_user_rules_witness:
  "admin_delete_user 1 (User ex_admin) (ex_db, ex_fs) =
     (Redirect [(Msg_cannot_delete_self, Error)] Ep_admin_panel, (ex_db, ex_fs)) \<and>
   admin_delete_user 1 (User ex_ana) (ex_db, ex_fs) =
     (Redirect [(Msg_last_admin, Error)] Ep_admin_panel, (ex_db, ex_fs)) \<and>
   (\<exists>db'. admin_delete_user 2 (User ex_admin) (ex_db, ex_fs) =
       (Redirect [(Msg_user_deleted ''ana'', Success)] Ep_admin_panel, (db', ex_fs)) \<and>
     users db' = [ex_admin] \<and>
     photos db' = [ex_panel\<lparr>uploaded_by := None\<rparr>, ex_gx, ex_rx\<lparr>uploaded_by := None\<rparr>])"
proof -
  have self: "pr_id (User ex_admin) = 1"
    by (simp add: User_def ex_admin_def)
  have other: "pr_id (User ex_ana) \<noteq> 1" "pr_id (User ex_admin) \<noteq> 2"
    by (simp_all add: User_def ex_admin_def ex_ana_def)
  have f1: "find (\<lambda>u. user_id u = 1) (users (fst (ex_db, ex_fs))) = Some ex_admin"
    by (simp add: ex_db_def ex_admin_def)
  have f2: "find (\<lambda>u. user_id u = 2) (users (fst (ex_db, ex_fs))) = Some ex_ana"
    by (simp add: ex_db_def ex_admin_def ex_ana_def)
  have adm: "is_admin ex_admin = 1" "is_admin ex_ana \<noteq> 1" "username ex_ana = ''ana''"
    by (simp_all add: ex_admin_def ex_ana_def)
  have cnt: "length (filter (\<lambda>u. is_admin u = 1) (users (fst (ex_db, ex_fs)))) \<le> 1"
    by (simp add: ex_db_def ex_admin_def ex_ana_def)
  have us: "filter (\<lambda>u. user_id u \<noteq> 2) (users (fst (ex_db, ex_fs))) = [ex_admin]"
    by (simp add: ex_db_def ex_admin_def ex_ana_def)
  have ph: "map (nulled_owner 2) (photos (fst (ex_db, ex_fs))) =
      [ex_panel\<lparr>uploaded_by := None\<rparr>, ex_gx, ex_rx\<lparr>uploaded_by := None\<rparr>]"
    by (simp add: ex_db_def nulled_owner_def ex_panel_def ex_gx_def ex_rx_def)
  note t1 = delete_user_rules [of "User ex_admin" 1 "(ex_db, ex_fs)" ex_admin, THEN conjunct1, rule_format, OF self]
  note t2 = delete_user_rules [of "User ex_ana" 1 "(ex_db, ex_fs)" ex_admin,
      THEN conjunct2, THEN conjunct1, rule_format, OF conjI [OF other(1) conjI [OF f1 conjI [OF adm(1) cnt]]]]
  have "\<not> (is_admin ex_ana = 1 \<and> length (filter (\<lambda>u. is_admin u = 1) (users (fst (ex_db, ex_fs)))) \<le> 1)"
    using adm(2) by simp
  note t3 = delete_user_rules [of "User ex_admin" 2 "(ex_db, ex_fs)" ex_ana,
      THEN conjunct2, THEN conjunct2, rule_format, OF conjI [OF other(2) conjI [OF f2 this]]]
  from t3 obtain db' where d: "admin_delete_user 2 (User ex_admin) (ex_db, ex_fs) =
           (Redirect [(Msg_user_deleted (username ex_ana), Success)] Ep_admin_panel, (db', snd (ex_db, ex_fs)))"
     "users db' = filter (\<lambda>u. user_id u \<noteq> 2) (users (fst (ex_db, ex_fs)))"
     "photos db' = map (nulled_owner 2) (photos (fst (ex_db, ex_fs)))"
    by blast
  have "\<exists>db'. admin_delete_user 2 (User ex_admin) (ex_db, ex_fs) =
       (Redirect [(Msg_user_deleted ''ana'', Success)] Ep_admin_panel, (db', ex_fs)) \<and>
     users db' = [ex_admin] \<and>
     photos db' = [ex_panel\<lparr>uploaded_by := None\<rparr>, ex_gx, ex_rx\<lparr>uploaded_by := None\<rparr>]"
    apply (rule exI [of _ db'])
    using d us ph adm(3) by simp
  with t1 t2 show ?thesis by (intro conjI)
qed

subsection \<open>Uploading\<close>

text \<open>
  Claim C7. An upload whose file extension, lowercased, is not one of \<open>png\<close>, \<open>jpg\<close>,
  \<open>jpeg\<close>, \<open>webp\<close> is rejected with a validation error: no photo row is inserted and no
  file is written, the database and the uploads tree are as before. When the other fields
  are valid, the error is the one about the format.
\<close>

theorem upload_rejects_extension:
  assumes "req_method req = POST" "req_files req ''photo'' = Some fl"
    and "lstrip_chars CHR ''.'' (lower (path_suffix (up_filename fl))) \<notin> ALLOWED_EXTENSIONS"
  shows "(\<exists>m. upload e req cur w = (Redirect [(m, Error)] Ep_upload, w)) \<and>
    (project_by_id_text e (fst w) (strip (form_get (req_form req) ''project_id'' [])) \<noteq> None \<and>
     up_filename fl \<noteq> [] \<and> strip (form_get (req_form req) ''display_name'' []) \<noteq> [] \<longrightarrow>
       upload e req cur w = (Redirect [(Msg_format_not_allowed, Error)] Ep_upload, w))"
proof
  show "\<exists>m. upload e req cur w = (Redirect [(m, Error)] Ep_upload, w)"
    using assms by (cases w) (auto simp add: upload_def Let_def split: option.splits)
next
  show "project_by_id_text e (fst w) (strip (form_get (req_form req) ''project_id'' [])) \<noteq> None \<and>
     up_filename fl \<noteq> [] \<and> strip (form_get (req_form req) ''display_name'' []) \<noteq> [] \<longrightarrow>
       upload e req cur w = (Redirect [(Msg_format_not_allowed, Error)] Ep_upload, w)"
    using assms
    by (cases w)
      (auto simp add: upload_def Let_def project_by_id_text_def sql_int_of_text_def int_of_text_def split: option.splits)
qed

theorem upload_rejects_extension_witness:
  "req_method ex_gif_request = POST \<and>
   req_files ex_gif_request ''photo'' = Some \<lparr>up_filename = ''panel.GIF'', up_content = ''GIF89a''\<rparr> \<and>
   lstrip_chars CHR ''.'' (lower (path_suffix ''panel.GIF'')) = ''gif'' \<and>
   ''gif'' \<notin> ALLOWED_EXTENSIONS \<and>
   upload ex_env ex_gif_request (User ex_admin) (ex_db, ex_fs) =
     (Redirect [(Msg_format_not_allowed, Error)] Ep_upload, (ex_db, ex_fs))"
proof -
  let ?fl = "\<lparr>up_filename = ''panel.GIF'', up_content = ''GIF89a''\<rparr>"
  have h1: "req_method ex_gif_request = POST"
    by (simp add: ex_gif_request_def)
  have h2: "req_files ex_gif_request ''photo'' = Some ?fl"
    by (simp add: ex_gif_request_def)
  have x: "lstrip_chars CHR ''.'' (lower (path_suffix ''panel.GIF'')) = ''gif''"
    by code_simp
  have n: "''gif'' \<notin> ALLOWED_EXTENSIONS"
    by (simp add: ALLOWED_EXTENSIONS_def)
  have h3: "lstrip_chars CHR ''.'' (lower (path_suffix (up_filename ?fl))) \<notin> ALLOWED_EXTENSIONS"
    using x n by simp
  have p: "project_by_id_text ex_env (fst (ex_db, ex_fs)) (strip (form_get (req_form ex_gif_request) ''project_id'' [])) \<noteq> None"
    by code_simp
  have d: "strip (form_get (req_form ex_gif_request) ''display_name'' []) \<noteq> []"
    by code_simp
  have f: "up_filename ?fl \<noteq> []" by simp
  from upload_rejects_extension [OF h1 h2 h3, of ex_env "User ex_admin" "(ex_db, ex_fs)",
      THEN conjunct2, rule_format, OF conjI [OF p conjI [OF f d]]] h1 h2 x n
  show ?thesis by (intro conjI)
qed

subsection \<open>The default project\<close>

lemma relocate_photo_projects: "projects (fst (relocate_photo e proj general ph st)) = projects (fst st)"
  by (cases st) (simp add: relocate_photo_def update_photo_location_def Let_def split: prod.splits)

lemma fold_relocate_projects:
  "projects (fst (fold (relocate_photo e proj general) phs st)) = projects (fst st)"
  by (induction phs arbitrary: st) (simp_all add: relocate_photo_projects)

lemma find_filter_other:
  assumes "find P xs = Some g" "Q g"
  shows "find P (filter Q xs) = Some g"
  using assms by (induction xs) (auto split: if_splits)

lemma delete_project_keeps_general:
  assumes g: "project_by_slug db ''general'' = Some g"
    and d: "distinct (map proj_id (projects db))"
  shows "project_by_slug (fst (snd (admin_delete_project e pid cur (db, fs)))) ''general'' = Some g"
proof (cases "project_by_id db pid")
  case None
  with g show ?thesis by (simp add: admin_delete_project_def)
next
  case (Some proj)
  show ?thesis
  proof (cases "slug proj = ''general''")
    case True
    with Some g show ?thesis by (simp add: admin_delete_project_def)
  next
    case False
    from Some have pin: "proj \<in> set (projects db)" "proj_id proj = pid"
      by (auto simp: project_by_id_def find_Some_iff)
    from g have gin: "g \<in> set (projects db)" "slug g = ''general''"
      by (auto simp: project_by_slug_def find_Some_iff)
    from False gin have "g \<noteq> proj" by auto
    with d pin gin have ne: "proj_id g \<noteq> pid"
      by (metis distinct_map inj_onD)
    let ?st = "fold (relocate_photo e proj g) (filter (\<lambda>p. project_id p = Some pid) (photos db))
        (db, mkdir fs ''general'', 0)"
    have pr: "projects (fst ?st) = projects db"
      by (simp add: fold_relocate_projects)
    have "find (\<lambda>p. slug p = ''general'') (filter (\<lambda>p. proj_id p \<noteq> pid) (projects db)) = Some g"
      using g ne by (intro find_filter_other) (simp_all add: project_by_slug_def)
    moreover obtain db1 fs1 k where st: "?st = (db1, fs1, k)"
      by (cases ?st)
    moreover from pr st have "projects db1 = projects db" by simp
    ultimately show ?thesis using Some False g
      by (simp add: admin_delete_project_def project_by_slug_def Let_def)
  qed
qed

lemma find_append_None: "find P xs = None \<Longrightarrow> find P (xs @ ys) = find P ys"
  by (induction xs) (auto split: if_splits)

lemma seed_succeeds:
  assumes "find (\<lambda>u. is_admin u = 1) (users db) \<noteq> None \<or> ''admin'' \<notin> set (map username (users db))"
    and "project_by_slug db ''general'' \<noteq> None \<or> ''General'' \<notin> set (map proj_name (projects db))"
  shows "\<exists>db' fs' g. ensure_admin_and_default_project e (db, fs) = Inr (db', fs') \<and>
      project_by_slug db' ''general'' = Some g \<and>
      (project_by_slug db ''general'' = None \<longrightarrow> proj_name g = ''General'')"
proof -
  have "\<exists>db1. (if find (\<lambda>u. is_admin u = 1) (users db) = None
            then insert_user db ''admin'' (generate_password_hash e ''admin123'') 1
            else Inr db) = Inr db1 \<and> projects db1 = projects db"
    using assms(1) by (cases "find (\<lambda>u. is_admin u = 1) (users db)") (auto simp: insert_user_def Let_def)
  then obtain db1 where db1: "(if find (\<lambda>u. is_admin u = 1) (users db) = None
            then insert_user db ''admin'' (generate_password_hash e ''admin123'') 1
            else Inr db) = Inr db1" "projects db1 = projects db"
    by blast
  show ?thesis
  proof (cases "project_by_slug db ''general''")
    case None
    with assms(2) have fresh: "''General'' \<notin> set (map proj_name (projects db))" by simp
    from None have "''general'' \<notin> set (map slug (projects db))"
      by (auto simp: project_by_slug_def find_None_iff)
    with fresh db1 None show ?thesis
      by (simp add: ensure_admin_and_default_project_def insert_project_def Let_def
          project_by_slug_def find_append_None)
  next
    case (Some g)
    with db1 show ?thesis
      by (auto simp: ensure_admin_and_default_project_def project_by_slug_def)
  qed
qed

text \<open>
  Claim C2. The default project has the slug \<open>general\<close>: the start-up seeding, which
  succeeds unless a unique name is already taken, leaves a project with that slug, named
  \<open>General\<close> when it had to be made. Deleting a project fails with an error message, and
  changes neither the database nor the uploads tree, when the identifier names no
  project and when it names the project with the slug \<open>general\<close>; and no call of the
  operation removes that project.
\<close>

theorem default_project_undeletable:
  "((find (\<lambda>u. is_admin u = 1) (users db) \<noteq> None \<or> ''admin'' \<notin> set (map username (users db))) \<and>
    (project_by_slug db ''general'' \<noteq> None \<or> ''General'' \<notin> set (map proj_name (projects db))) \<longrightarrow>
      (\<exists>db' fs' g. ensure_admin_and_default_project e (db, fs) = Inr (db', fs') \<and>
         project_by_slug db' ''general'' = Some g \<and>
         (project_by_slug db ''general'' = None \<longrightarrow> proj_name g = ''General''))) \<and>
   (project_by_id db pid = None \<longrightarrow>
      admin_delete_project e pid cur (db, fs) =
        (Redirect [(Msg_project_not_found, Error)] Ep_admin_panel, (db, fs))) \<and>
   (\<forall>proj. project_by_id db pid = Some proj \<and> slug proj = ''general'' \<longrightarrow>
      admin_delete_project e pid cur (db, fs) =
        (Redirect [(Msg_cannot_delete_general, Error)] Ep_admin_panel, (db, fs))) \<and>
   (\<forall>g. project_by_slug db ''general'' = Some g \<and> distinct (map proj_id (projects db)) \<longrightarrow>
      project_by_slug (fst (snd (admin_delete_project e pid cur (db, fs)))) ''general'' = Some g)"
proof (intro conjI impI allI)
  assume "(find (\<lambda>u. is_admin u = 1) (users db) \<noteq> None \<or> ''admin'' \<notin> set (map username (users db))) \<and>
    (project_by_slug db ''general'' \<noteq> None \<or> ''General'' \<notin> set (map proj_name (projects db)))"
  then show "\<exists>db' fs' g. ensure_admin_and_default_project e (db, fs) = Inr (db', fs') \<and>
         project_by_slug db' ''general'' = Some g \<and>
         (project_by_slug db ''general'' = None \<longrightarrow> proj_name g = ''General'')"
    using seed_succeeds [of db e fs] by blast
next
  assume "project_by_id db pid = None"
  then show "admin_delete_project e pid cur (db, fs) =
        (Redirect [(Msg_project_not_found, Error)] Ep_admin_panel, (db, fs))"
    by (simp add: admin_delete_project_def)
next
  fix proj assume "project_by_id db pid = Some proj \<and> slug proj = ''general''"
  then show "admin_delete_project e pid cur (db, fs) =
        (Redirect [(Msg_cannot_delete_general, Error)] Ep_admin_panel, (db, fs))"
    by (simp add: admin_delete_project_def)
next
  fix g assume "project_by_slug db ''general'' = Some g \<and> distinct (map proj_id (projects db))"
  then show "project_by_slug (fst (snd (admin_delete_project e pid cur (db, fs)))) ''general'' = Some g"
    using delete_project_keeps_general by blast
qed

theorem default_project_undeletable_witness:
  "(\<exists>db' fs' g. ensure_admin_and_default_project ex_env (ex_empty_db, ex_empty_fs) = Inr (db', fs') \<and>
      project_by_slug db' ''general'' = Some g \<and> proj_name g = ''General'') \<and>
   project_by_id ex_db 99 = None \<and>
   admin_delete_project ex_env 99 (User ex_admin) (ex_db, ex_fs) =
     (Redirect [(Msg_project_not_found, Error)] Ep_admin_panel, (ex_db, ex_fs)) \<and>
   project_by_id ex_db 1 = Some ex_general \<and> slug ex_general = ''general'' \<and>
   admin_delete_project ex_env 1 (User ex_admin) (ex_db, ex_fs) =
     (Redirect [(Msg_cannot_delete_general, Error)] Ep_admin_panel, (ex_db, ex_fs)) \<and>
   project_by_slug ex_db ''general'' = Some ex_general \<and>
   project_by_slug (fst (snd (admin_delete_project ex_env 2 (User ex_admin) (ex_db, ex_fs))))
     ''general'' = Some ex_general"
proof -
  have a: "(find (\<lambda>u. is_admin u = 1) (users ex_empty_db) \<noteq> None \<or>
       ''admin'' \<notin> set (map username (users ex_empty_db))) \<and>
    (project_by_slug ex_empty_db ''general'' \<noteq> None \<or>
       ''General'' \<notin> set (map proj_name (projects ex_empty_db)))"
    by (simp add: ex_empty_db_def)
  have n: "project_by_slug ex_empty_db ''general'' = None"
    by (simp add: ex_empty_db_def project_by_slug_def)
  have m: "project_by_id ex_db 99 = None"
    by (simp add: project_by_id_def ex_db_def ex_general_def ex_roof_def)
  have g1: "project_by_id ex_db 1 = Some ex_general"
    by (simp add: project_by_id_def ex_db_def ex_general_def ex_roof_def)
  have g2: "slug ex_general = ''general''"
    by (simp add: ex_general_def)
  have g3: "project_by_slug ex_db ''general'' = Some ex_general"
    by (simp add: project_by_slug_def ex_db_def ex_general_def ex_roof_def)
  have d: "distinct (map proj_id (projects ex_db))"
    by (simp add: ex_db_def ex_general_def ex_roof_def)
  note s = default_project_undeletable [where db = ex_empty_db and e = ex_env and fs = ex_empty_fs,
      THEN conjunct1, rule_format, OF a]
  from s n have w1: "\<exists>db' fs' g.
      ensure_admin_and_default_project ex_env (ex_empty_db, ex_empty_fs) = Inr (db', fs') \<and>
      project_by_slug db' ''general'' = Some g \<and> proj_name g = ''General''"
    by blast
  note w2 = default_project_undeletable [where db = ex_db and e = ex_env and fs = ex_fs
      and cur = "User ex_admin" and pid = 99,
      THEN conjunct2, THEN conjunct1, rule_format, OF m]
  note w3 = default_project_undeletable [where db = ex_db and e = ex_env and fs = ex_fs
      and cur = "User ex_admin" and pid = 1,
      THEN conjunct2, THEN conjunct2, THEN conjunct1, rule_format, OF conjI [OF g1 g2]]
  note w4 = default_project_undeletable [where db = ex_db and e = ex_env and fs = ex_fs
      and cur = "User ex_admin" and pid = 2,
      THEN conjunct2, THEN conjunct2, THEN conjunct2, rule_format, OF conjI [OF g3 d]]
  from w1 m w2 g1 g2 w3 g3 w4 show ?thesis by (intro conjI)
qed

subsection \<open>Editing a photo\<close>

lemma path_exists_mkdir: "path_exists (mkdir fs d) p = path_exists fs p"
  by (simp add: path_exists_def mkdir_def)

lemma files_mkdir: "files (mkdir fs d) = files fs"
  by (simp add: mkdir_def)

lemma project_by_id_text_nonempty: "project_by_id_text e db txt = Some p \<Longrightarrow> txt \<noteq> []"
  by (auto simp: project_by_id_text_def sql_int_of_text_def int_of_text_def)

text \<open>
  Claim C4. When the move or rename of the physical file that \<open>edit_photo\<close> attempts
  raises an error, the edit is aborted and the error is shown: the response flashes the
  error and returns to the edit form, and the database is the one before the call, so
  no field of the photo row (display name, description, project reference, filepath,
  filename) is modified. The files are those before the call too.
\<close>

theorem edit_photo_move_error_aborts:
  assumes post: "req_method req = POST"
    and photo: "photo_by_id db pid = Some photo"
    and name: "strip (form_get (req_form req) ''display_name'' []) = new_display_name"
      "new_display_name \<noteq> []"
    and proj: "strip (form_get (req_form req) ''project_id'' []) = new_project_id"
      "project_by_id_text e db new_project_id = Some new_proj"
    and changed: "edit_project_changed photo new_project_id \<or> edit_name_changed photo new_display_name"
    and there: "get_photo_filepath photo \<noteq> []" "path_exists fs (get_photo_filepath photo)"
    and raises: "replace_error e (get_photo_filepath photo)
        (snd (edit_destination e photo new_proj new_display_name (mkdir fs (slug new_proj)))) = Some err"
  shows "edit_photo e pid req cur (db, fs) =
      (Redirect [(Msg_move_failed err, Error)] (Ep_edit_photo pid), (db, mkdir fs (slug new_proj))) \<and>
    photos (fst (snd (edit_photo e pid req cur (db, fs)))) = photos db \<and>
    files (snd (snd (edit_photo e pid req cur (db, fs)))) = files fs"
proof -
  from proj(2) have ne: "new_project_id \<noteq> []"
    by (rule project_by_id_text_nonempty)
  have run: "edit_photo e pid req cur (db, fs) =
      (Redirect [(Msg_move_failed err, Error)] (Ep_edit_photo pid), (db, mkdir fs (slug new_proj)))"
    using post photo name proj ne changed there raises
    by (simp add: edit_photo_def Let_def path_exists_mkdir case_prod_beta)
  then show ?thesis
    by (simp add: files_mkdir)
qed

theorem edit_photo_move_error_aborts_witness:
  "photo_by_id ex_db 1 = Some ex_panel \<and>
   project_by_id_text ex_env_denied ex_db ''2'' = Some ex_roof \<and>
   edit_name_changed ex_panel ''Panel One'' \<and>
   path_exists ex_fs (get_photo_filepath ex_panel) \<and>
   edit_photo ex_env_denied 1 ex_rename_request (User ex_admin) (ex_db, ex_fs) =
      (Redirect [(Msg_move_failed ''Permission denied'', Error)] (Ep_edit_photo 1),
       (ex_db, mkdir ex_fs (slug ex_roof))) \<and>
   photos (fst (snd (edit_photo ex_env_denied 1 ex_rename_request (User ex_admin) (ex_db, ex_fs))))
     = photos ex_db \<and>
   files (snd (snd (edit_photo ex_env_denied 1 ex_rename_request (User ex_admin) (ex_db, ex_fs))))
     = files ex_fs"
proof -
  have post: "req_method ex_rename_request = POST"
    by (simp add: ex_rename_request_def)
  have photo: "photo_by_id ex_db 1 = Some ex_panel"
    by (simp add: photo_by_id_def ex_db_def ex_panel_def)
  have name: "strip (form_get (req_form ex_rename_request) ''display_name'' []) = ''Panel One''"
    by code_simp
  have pid: "strip (form_get (req_form ex_rename_request) ''project_id'' []) = ''2''"
    by code_simp
  have proj: "project_by_id_text ex_env_denied ex_db ''2'' = Some ex_roof"
    by (simp add: project_by_id_text_def sql_int_of_text_def int_of_text_def all_digits_def
        is_digit_def nat_of_digits_def digit_val_def project_by_id_def ex_db_def ex_general_def
        ex_roof_def)
  have changed: "edit_name_changed ex_panel ''Panel One''"
    by code_simp
  have fp: "get_photo_filepath ex_panel \<noteq> []"
    by code_simp
  have there: "path_exists ex_fs (get_photo_filepath ex_panel)"
    by code_simp
  have raises: "replace_error ex_env_denied (get_photo_filepath ex_panel)
      (snd (edit_destination ex_env_denied ex_panel ex_roof ''Panel One'' (mkdir ex_fs (slug ex_roof))))
      = Some ''Permission denied''"
    by (simp add: ex_env_denied_def)
  have ne: "''Panel One'' \<noteq> []" by simp
  note t = edit_photo_move_error_aborts [OF post photo name ne pid proj disjI2 [OF changed]
      fp there raises, of "User ex_admin"]
  show ?thesis
    by (intro conjI photo proj changed there t [THEN conjunct1]
        t [THEN conjunct2, THEN conjunct1] t [THEN conjunct2, THEN conjunct2])
qed





















subsection \<open>Deleting a project\<close>




















subsection \<open>Search and listing\<close>










end
